theory Spec2Isabelle
  imports Main "HOL-Library.AList"
begin

section \<open>Python values, the object store and the file system\<close>

text \<open>
  The values kept in the sections of an answers document. Python tests them for truth
  (\<open>x or default\<close>), so the truth value of each is written out.
\<close>

datatype scalar = SNone | SStr string | SBool bool | SInt int

fun truthy :: "scalar \<Rightarrow> bool" where
  "truthy SNone = False"
| "truthy (SStr s) = (s \<noteq> [])"
| "truthy (SBool b) = b"
| "truthy (SInt i) = (i \<noteq> 0)"

text \<open>
  A section is a dict of scalars; a document is a dict whose values are scalars or
  references to section objects. Dicts are mutable Python objects: two names can hold
  the same dict, so sections and documents live in a store, at addresses.
\<close>

type_synonym section_dict = "(string \<times> scalar) list"

datatype pyval = VScalar scalar | VDict nat

type_synonym document = "(string \<times> pyval) list"

text \<open>What a file holds: a document by value, as a serializer writes it.\<close>

datatype fval = FScalar scalar | FSect section_dict

type_synonym fdoc = "(string \<times> fval) list"

datatype fnode = Dir | File "fdoc option"

type_synonym filesystem = "string \<rightharpoonup> fnode"

record world =
  sects :: "nat \<rightharpoonup> section_dict"
  docs :: "nat \<rightharpoonup> document"
  fresh_addr :: nat
  fs :: filesystem

definition new_sect :: "section_dict \<Rightarrow> world \<Rightarrow> nat \<times> world" where
  "new_sect s w =
     (fresh_addr w, w\<lparr>sects := (sects w)(fresh_addr w \<mapsto> s), fresh_addr := Suc (fresh_addr w)\<rparr>)"

definition new_doc :: "document \<Rightarrow> world \<Rightarrow> nat \<times> world" where
  "new_doc d w =
     (fresh_addr w, w\<lparr>docs := (docs w)(fresh_addr w \<mapsto> d), fresh_addr := Suc (fresh_addr w)\<rparr>)"

text \<open>Building the objects of a document given by value (a parsed file, a literal).\<close>

fun build_items :: "fdoc \<Rightarrow> world \<Rightarrow> document \<times> world" where
  "build_items [] w = ([], w)"
| "build_items ((k, FScalar s) # kvs) w =
     (let (r, w') = build_items kvs w in ((k, VScalar s) # r, w'))"
| "build_items ((k, FSect s) # kvs) w =
     (let (a, w1) = new_sect s w; (r, w') = build_items kvs w1 in ((k, VDict a) # r, w'))"

definition build_doc :: "fdoc \<Rightarrow> world \<Rightarrow> nat \<times> world" where
  "build_doc d w = (let (items, w1) = build_items d w in new_doc items w1)"

text \<open>The value of a document of the store, as a serializer reads it.\<close>

definition dump_val :: "world \<Rightarrow> pyval \<Rightarrow> fval" where
  "dump_val w v =
     (case v of
        VScalar s \<Rightarrow> FScalar s
      | VDict a \<Rightarrow> FSect (case sects w a of None \<Rightarrow> [] | Some s \<Rightarrow> s))"

definition dump :: "world \<Rightarrow> nat \<Rightarrow> fdoc" where
  "dump w d = (case docs w d of None \<Rightarrow> [] | Some items \<Rightarrow> map (\<lambda>(k, v). (k, dump_val w v)) items)"

text \<open>
  \<open>copy.deepcopy\<close> of a document: every section it refers to is copied to a new
  object, once (the memo keeps a section shared by two keys shared in the copy).
\<close>

fun deepcopy_items :: "document \<Rightarrow> (nat \<times> nat) list \<Rightarrow> world \<Rightarrow> document \<times> (nat \<times> nat) list \<times> world" where
  "deepcopy_items [] memo w = ([], memo, w)"
| "deepcopy_items ((k, VScalar s) # kvs) memo w =
     (let (r, memo', w') = deepcopy_items kvs memo w in ((k, VScalar s) # r, memo', w'))"
| "deepcopy_items ((k, VDict a) # kvs) memo w =
     (case map_of memo a of
        Some a' \<Rightarrow>
          (let (r, memo', w') = deepcopy_items kvs memo w in ((k, VDict a') # r, memo', w'))
      | None \<Rightarrow>
          (case sects w a of
             None \<Rightarrow>
               (let (r, memo', w') = deepcopy_items kvs memo w in ((k, VDict a) # r, memo', w'))
           | Some s \<Rightarrow>
               (let (a', w1) = new_sect s w;
                    (r, memo', w') = deepcopy_items kvs ((a, a') # memo) w1
                in ((k, VDict a') # r, memo', w'))))"

definition deepcopy :: "document \<Rightarrow> world \<Rightarrow> nat \<times> world" where
  "deepcopy d w = (let (items, memo, w1) = deepcopy_items d [] w in new_doc items w1)"

section \<open>Paths\<close>

text \<open>\<open>os.path.isabs\<close>, \<open>str.lstrip('/')\<close> and \<open>os.path.join\<close> of two parts (posixpath).\<close>

definition isabs :: "string \<Rightarrow> bool" where
  "isabs p = (case p of [] \<Rightarrow> False | c # cs \<Rightarrow> c = CHR ''/'')"

definition lstrip_slash :: "string \<Rightarrow> string" where
  "lstrip_slash p = dropWhile (\<lambda>c. c = CHR ''/'') p"

definition path_join :: "string \<Rightarrow> string \<Rightarrow> string" where
  "path_join a b =
     (if isabs b then b
      else if a = [] \<or> last a = CHR ''/'' then a @ b
      else a @ ''/'' @ b)"

text \<open>\<open>str.lower\<close> on the ASCII letters.\<close>

definition lower_char :: "char \<Rightarrow> char" where
  "lower_char c =
     (case map_of (zip ''ABCDEFGHIJKLMNOPQRSTUVWXYZ'' ''abcdefghijklmnopqrstuvwxyz'') c of
        None \<Rightarrow> c
      | Some l \<Rightarrow> l)"

definition lower :: "string \<Rightarrow> string" where
  "lower s = map lower_char s"

text \<open>The truth value of an optional string: None and the empty string are false.\<close>

definition truthy_str :: "string option \<Rightarrow> bool" where
  "truthy_str x = (case x of None \<Rightarrow> False | Some s \<Rightarrow> s \<noteq> [])"

text \<open>
  \<open>os.path.exists\<close> and \<open>os.path.isfile\<close> on the file system of the world; the
  empty path names nothing.
\<close>

definition exists_path :: "world \<Rightarrow> string \<Rightarrow> bool" where
  "exists_path w p = (p \<noteq> [] \<and> fs w p \<noteq> None)"

definition isfile :: "world \<Rightarrow> string \<Rightarrow> bool" where
  "isfile w p = (p \<noteq> [] \<and> (case fs w p of Some (File c) \<Rightarrow> True | _ \<Rightarrow> False))"

section \<open>Constants, errors and collaborators\<close>

text \<open>
  Modelled from the spec: the module \<open>atomicapp.constants\<close> is not among the sources.
  The spec names a distinguished global section, a namespace value that the defaults
  hold, a provider value, and conventional file names for the answers file, the sample
  answers file, the runtime answers file and the main descriptor file. The values are
  the ones the application uses; the theorems below unfold them only where a concrete
  input is evaluated.
\<close>

definition GLOBAL_CONF :: string where "GLOBAL_CONF = ''general''"
definition NAMESPACE_KEY :: string where "NAMESPACE_KEY = ''namespace''"
definition PROVIDER_KEY :: string where "PROVIDER_KEY = ''provider''"
definition DEFAULT_NAMESPACE :: string where "DEFAULT_NAMESPACE = ''default''"
definition ANSWERS_FILE :: string where "ANSWERS_FILE = ''answers.conf''"
definition ANSWERS_FILE_SAMPLE :: string where "ANSWERS_FILE_SAMPLE = ''answers.conf.sample''"
definition ANSWERS_RUNTIME_FILE :: string where "ANSWERS_RUNTIME_FILE = ''answers.conf.gen''"
definition ANSWERS_FILE_SAMPLE_FORMAT :: string where "ANSWERS_FILE_SAMPLE_FORMAT = ''ini''"
definition MAIN_FILE :: string where "MAIN_FILE = ''Nulecule''"

definition DEFAULT_ANSWERS :: fdoc where
  "DEFAULT_ANSWERS = [(GLOBAL_CONF, FSect [(NAMESPACE_KEY, SStr DEFAULT_NAMESPACE)])]"

text \<open>
  The exceptions of the controller: its own \<open>NuleculeException\<close>, the ones Python raises
  on a missing key, on item assignment to a value that is no dict and on an attribute of
  a value that has none, the ones a loader or a serializer raises, and the ones another
  collaborator raises.
\<close>

datatype error =
    NuleculeException string
  | KeyError string
  | TypeError
  | AttributeError
  | LoadError string
  | IOError string
  | FormatError string
  | ExternalError string

text \<open>
  The calls the controller makes to its collaborators, in the order it makes them. A
  configuration handed over is recorded by its value at the time of the call.
\<close>

datatype event =
    EvMkdtemp string
  | EvCopyDir string string bool
  | EvLoadAnswers string
  | EvWriteAnswers string fdoc "string option"
  | EvUnpack string "string option" "fdoc option" bool bool bool
  | EvLoadFromPath "string option" "fdoc option" bool
  | EvLoadConfig fdoc bool bool
  | EvRender "string option" bool
  | EvRun "string option" bool
  | EvStop "string option" bool

text \<open>
  The descriptor engine (\<open>atomicapp.nulecule.base.Nulecule\<close>) is a collaborator whose code
  is not among the sources: it is a parameter. A bundle handle holds a reference to its
  configuration document. Every entry point may change the store and the file system,
  may raise, and returns the handle as it left it.
\<close>

record handle =
  b_config :: nat
  b_basepath :: "string option"

record engine =
  e_unpack :: "string \<Rightarrow> string option \<Rightarrow> nat option \<Rightarrow> bool \<Rightarrow> bool \<Rightarrow> bool \<Rightarrow> world \<Rightarrow> (error + handle) \<times> world"
  e_load_from_path :: "string option \<Rightarrow> bool \<Rightarrow> nat option \<Rightarrow> world \<Rightarrow> (error + handle) \<times> world"
  e_load_config :: "handle \<Rightarrow> nat \<Rightarrow> bool \<Rightarrow> bool \<Rightarrow> world \<Rightarrow> (error + handle) \<times> world"
  e_render :: "handle \<Rightarrow> string option \<Rightarrow> bool \<Rightarrow> world \<Rightarrow> (error + handle) \<times> world"
  e_run :: "handle \<Rightarrow> string option \<Rightarrow> bool \<Rightarrow> world \<Rightarrow> (error + handle) \<times> world"
  e_stop :: "handle \<Rightarrow> string option \<Rightarrow> bool \<Rightarrow> world \<Rightarrow> (error + handle) \<times> world"

text \<open>
  The helpers of \<open>atomicapp.utils.Utils\<close> and of the process environment whose code is
  not among the sources: parameters as well. They see and change the file system; they
  hold no reference to a dict of the controller.
\<close>

record utils =
  getRoot :: string
  getcwd :: string
  mkdtemp :: "string \<Rightarrow> filesystem \<Rightarrow> (error + string) \<times> filesystem"
  copy_dir :: "string \<Rightarrow> string \<Rightarrow> bool \<Rightarrow> filesystem \<Rightarrow> (error + unit) \<times> filesystem"
  getNewAppCacheDir :: "string \<Rightarrow> string"
  running_on_openshift :: bool
  environ :: "string \<rightharpoonup> string"
  get_openshift_api_endpoint_from_env :: "error + string"
  getSupportedProviders :: "string option \<Rightarrow> filesystem \<Rightarrow> string list"

section \<open>The controller's state\<close>

record manager =
  answers :: nat
  cli_answers :: "section_dict option"
  answers_format :: "string option"
  answers_file :: "string option"
  app_path :: "string option"
  image_name :: "string option"
  main_file :: "string option"
  nulecule :: "handle option"

record state =
  mgr :: manager
  wld :: world
  trc :: "event list"

text \<open>Statements in sequence: an exception ends the sequence and keeps the state reached.\<close>

definition ret :: "'a \<Rightarrow> 's \<Rightarrow> (error + 'a) \<times> 's" where
  "ret x s = (Inr x, s)"

definition raise :: "error \<Rightarrow> 's \<Rightarrow> (error + 'a) \<times> 's" where
  "raise e s = (Inl e, s)"

definition andthen ::
  "('s \<Rightarrow> (error + 'a) \<times> 's) \<Rightarrow> ('a \<Rightarrow> 's \<Rightarrow> (error + 'b) \<times> 's) \<Rightarrow> 's \<Rightarrow> (error + 'b) \<times> 's" where
  "andthen f g s = (case f s of (Inl e, s') \<Rightarrow> (Inl e, s') | (Inr x, s') \<Rightarrow> g x s')"

definition assign :: "(manager \<Rightarrow> manager) \<Rightarrow> state \<Rightarrow> (error + unit) \<times> state" where
  "assign f s = (Inr (), s\<lparr>mgr := f (mgr s)\<rparr>)"

definition emit :: "event \<Rightarrow> state \<Rightarrow> (error + unit) \<times> state" where
  "emit e s = (Inr (), s\<lparr>trc := trc s @ [e]\<rparr>)"

definition call :: "(world \<Rightarrow> (error + 'a) \<times> world) \<Rightarrow> state \<Rightarrow> (error + 'a) \<times> state" where
  "call f s = (case f (wld s) of (r, w') \<Rightarrow> (r, s\<lparr>wld := w'\<rparr>))"

definition call_fs ::
  "(filesystem \<Rightarrow> (error + 'a) \<times> filesystem) \<Rightarrow> state \<Rightarrow> (error + 'a) \<times> state" where
  "call_fs f s = (case f (fs (wld s)) of (r, fs') \<Rightarrow> (r, s\<lparr>wld := (wld s)\<lparr>fs := fs'\<rparr>\<rparr>))"

text \<open>\<open>os.path.join(p, name)\<close> where \<open>p\<close> may be None: joining None raises.\<close>

definition join_opt :: "string option \<Rightarrow> string \<Rightarrow> state \<Rightarrow> (error + string) \<times> state" where
  "join_opt p name = (case p of None \<Rightarrow> raise AttributeError | Some a \<Rightarrow> ret (path_join a name))"

text \<open>
  Item access on the objects of the store. \<open>d[k1][k2] = v\<close> for a document \<open>d\<close>: a
  missing \<open>k1\<close> is a KeyError, a value under \<open>k1\<close> that is no dict a TypeError.
\<close>

definition setitem_doc :: "nat \<Rightarrow> string \<Rightarrow> pyval \<Rightarrow> world \<Rightarrow> (error + unit) \<times> world" where
  "setitem_doc d k v w =
     (case docs w d of
        None \<Rightarrow> (Inl TypeError, w)
      | Some items \<Rightarrow> (Inr (), w\<lparr>docs := (docs w)(d \<mapsto> AList.update k v items)\<rparr>))"

definition setitem_sect :: "nat \<Rightarrow> string \<Rightarrow> scalar \<Rightarrow> world \<Rightarrow> (error + unit) \<times> world" where
  "setitem_sect a k v w =
     (case sects w a of
        None \<Rightarrow> (Inl TypeError, w)
      | Some items \<Rightarrow> (Inr (), w\<lparr>sects := (sects w)(a \<mapsto> AList.update k v items)\<rparr>))"

definition setitem2 :: "nat \<Rightarrow> string \<Rightarrow> string \<Rightarrow> scalar \<Rightarrow> world \<Rightarrow> (error + unit) \<times> world" where
  "setitem2 d k1 k2 v w =
     (case docs w d of
        None \<Rightarrow> (Inl TypeError, w)
      | Some items \<Rightarrow>
          (case map_of items k1 of
             None \<Rightarrow> (Inl (KeyError k1), w)
           | Some (VScalar x) \<Rightarrow> (Inl TypeError, w)
           | Some (VDict a) \<Rightarrow> setitem_sect a k2 v w))"

text \<open>The value of \<open>d[k1]\<close> seen through the store, and of \<open>d[k1][k2]\<close>.\<close>

definition lookup_sect :: "world \<Rightarrow> nat \<Rightarrow> string \<Rightarrow> section_dict option" where
  "lookup_sect w d k1 =
     (case docs w d of
        None \<Rightarrow> None
      | Some items \<Rightarrow>
          (case map_of items k1 of
             Some (VDict a) \<Rightarrow> sects w a
           | _ \<Rightarrow> None))"

definition lookup2 :: "world \<Rightarrow> nat \<Rightarrow> string \<Rightarrow> string \<Rightarrow> scalar option" where
  "lookup2 w d k1 k2 = (case lookup_sect w d k1 of None \<Rightarrow> None | Some sec \<Rightarrow> map_of sec k2)"

text \<open>
  Modelled from the spec: \<open>Utils.loadAnswers\<close> and \<open>anymarkup.serialize_file\<close> are not
  among the sources. Loading fails when the path is no file or its content does not
  parse, and otherwise returns a new document holding the file's content. Serializing
  opens the path for writing and then writes the document's value in the given format,
  over what was there. It fails with an I/O error, and changes nothing, when the path is
  a directory or its parent directory does not exist. With no format given the format is
  the one the extension of the file name stands for; when the format is none of the
  serializer's, or there is none and the extension stands for none, it fails after the
  file was opened, which leaves the file without content.
\<close>

definition loadAnswers :: "string \<Rightarrow> world \<Rightarrow> (error + nat) \<times> world" where
  "loadAnswers path w =
     (case fs w path of
        Some (File (Some content)) \<Rightarrow> (case build_doc content w of (a, w') \<Rightarrow> (Inr a, w'))
      | _ \<Rightarrow> (Inl (LoadError path), w))"

text \<open>\<open>os.path.dirname\<close> and the extension \<open>os.path.splitext\<close> gives, without its dot.\<close>

definition dirname :: "string \<Rightarrow> string" where
  "dirname p =
     (let head = rev (dropWhile (\<lambda>c. c \<noteq> CHR ''/'') (rev p))
      in if head \<noteq> [] \<and> \<not> list_all (\<lambda>c. c = CHR ''/'') head
         then rev (dropWhile (\<lambda>c. c = CHR ''/'') (rev head))
         else head)"

definition extension :: "string \<Rightarrow> string" where
  "extension p =
     (let base = dropWhile (\<lambda>c. c = CHR ''.'') (rev (takeWhile (\<lambda>c. c \<noteq> CHR ''/'') (rev p)))
      in if CHR ''.'' \<in> set base then rev (takeWhile (\<lambda>c. c \<noteq> CHR ''.'') (rev base)) else [])"

definition parent_exists :: "world \<Rightarrow> string \<Rightarrow> bool" where
  "parent_exists w path =
     (list_all (\<lambda>c. c = CHR ''/'') (dirname path) \<or> fs w (dirname path) = Some Dir)"

definition format_known :: "string option \<Rightarrow> string \<Rightarrow> bool" where
  "format_known fmt path =
     (case fmt of
        Some f \<Rightarrow> f \<in> set [''ini'', ''json'', ''json5'', ''toml'', ''xml'', ''yaml'']
      | None \<Rightarrow>
          extension path \<in> set [''ini'', ''json'', ''json5'', ''toml'', ''xml'', ''yaml'', ''yml''])"

definition serialize_file :: "fdoc \<Rightarrow> string \<Rightarrow> string option \<Rightarrow> world \<Rightarrow> (error + unit) \<times> world" where
  "serialize_file content path fmt w =
     (if path = [] \<or> fs w path = Some Dir \<or> \<not> parent_exists w path
      then (Inl (IOError path), w)
      else if \<not> format_known fmt path
      then (Inl (FormatError path), w\<lparr>fs := (fs w)(path \<mapsto> File None)\<rparr>)
      else (Inr (), w\<lparr>fs := (fs w)(path \<mapsto> File (Some content))\<rparr>))"

section \<open>The controller\<close>

subsection \<open>Runtime answers and writing them\<close>

text \<open>The truth value of a value of a document: an empty dict is false.\<close>

definition truthy_pyval :: "world \<Rightarrow> pyval \<Rightarrow> bool" where
  "truthy_pyval w v =
     (case v of
        VScalar s \<Rightarrow> truthy s
      | VDict a \<Rightarrow> (case sects w a of None \<Rightarrow> False | Some sec \<Rightarrow> sec \<noteq> []))"

definition empty_dict :: "world \<Rightarrow> pyval \<times> world" where
  "empty_dict w = (case new_sect [] w of (a, w') \<Rightarrow> (VDict a, w'))"

text \<open>
  \<open>_get_runtime_answers(config, cli_provider)\<close>. The copy is made first; the value put
  under the global key of the copy is then the one \<open>config.get\<close> returns, that is the
  object the given document refers to (or a new empty dict when that value is false), and
  the two item assignments that follow go to that object.
\<close>

definition get_runtime_answers :: "nat \<Rightarrow> string option \<Rightarrow> world \<Rightarrow> (error + nat) \<times> world" where
  "get_runtime_answers config cli_provider w =
     (case docs w config of
        None \<Rightarrow> (Inl AttributeError, w)
      | Some items \<Rightarrow>
          (case deepcopy items w of (c, w1) \<Rightarrow>
             (case (case map_of items GLOBAL_CONF of
                      None \<Rightarrow> empty_dict w1
                    | Some v \<Rightarrow> if truthy_pyval w1 v then (v, w1) else empty_dict w1) of
                (g, w2) \<Rightarrow>
                  andthen (setitem_doc c GLOBAL_CONF g)
                    (\<lambda>_ w3.
                       (case g of
                          VScalar x \<Rightarrow> (Inl AttributeError, w3)
                        | VDict a \<Rightarrow>
                            (case sects w3 a of
                               None \<Rightarrow> (Inl AttributeError, w3)
                             | Some sec \<Rightarrow>
                                 andthen
                                   (setitem_sect a NAMESPACE_KEY
                                      (case map_of sec NAMESPACE_KEY of
                                         None \<Rightarrow> SStr DEFAULT_NAMESPACE
                                       | Some v \<Rightarrow> if truthy v then v else SStr DEFAULT_NAMESPACE))
                                   (\<lambda>_. andthen
                                      (case cli_provider of
                                         None \<Rightarrow> ret ()
                                       | Some p \<Rightarrow>
                                           if p \<noteq> [] then setitem_sect a PROVIDER_KEY (SStr p)
                                           else ret ())
                                      (\<lambda>_. ret c)) w3))) w2)))"

text \<open>\<open>_write_answers(path, answers, answers_format)\<close>.\<close>

definition write_answers :: "string \<Rightarrow> nat \<Rightarrow> string option \<Rightarrow> state \<Rightarrow> (error + unit) \<times> state" where
  "write_answers path a fmt s =
     andthen (emit (EvWriteAnswers path (dump (wld s) a) fmt))
       (\<lambda>_. call (serialize_file (dump (wld s) a) path fmt)) s"

subsection \<open>Answer resolution\<close>

text \<open>\<open>self.answers[GLOBAL_CONF][k] = v\<close>.\<close>

definition set_answer :: "string \<Rightarrow> scalar \<Rightarrow> state \<Rightarrow> (error + unit) \<times> state" where
  "set_answer k v s = call (setitem2 (answers (mgr s)) GLOBAL_CONF k v) s"

fun merge_cli :: "section_dict \<Rightarrow> state \<Rightarrow> (error + unit) \<times> state" where
  "merge_cli [] s = ret () s"
| "merge_cli ((k, v) # kvs) s = andthen (set_answer k v) (\<lambda>_. merge_cli kvs) s"

definition load_answers_file :: "string \<Rightarrow> state \<Rightarrow> (error + unit) \<times> state" where
  "load_answers_file f =
     andthen (emit (EvLoadAnswers f))
       (\<lambda>_. andthen (call (loadAnswers f)) (\<lambda>a. assign (\<lambda>m. m\<lparr>answers := a\<rparr>)))"

text \<open>\<open>_process_answers()\<close>.\<close>

definition process_answers :: "state \<Rightarrow> (error + unit) \<times> state" where
  "process_answers =
     andthen
       (\<lambda>s. if \<not> truthy_str (answers_file (mgr s))
            then andthen (join_opt (app_path (mgr s)) ANSWERS_FILE)
                   (\<lambda>f s'. if isfile (wld s') f
                           then assign (\<lambda>m. m\<lparr>answers_file := Some f\<rparr>) s'
                           else ret () s') s
            else ret () s)
       (\<lambda>_. andthen
          (\<lambda>s. case answers_file (mgr s) of
                 None \<Rightarrow> ret () s
               | Some f \<Rightarrow> if f \<noteq> [] then load_answers_file f s else ret () s)
          (\<lambda>_ s. case cli_answers (mgr s) of
                   None \<Rightarrow> ret () s
                 | Some kvs \<Rightarrow> if kvs \<noteq> [] then merge_cli kvs s else ret () s))"

subsection \<open>Construction\<close>

text \<open>Lines 51 to 60: the three paths, when absolute, are put under the root.\<close>

definition adjust_paths ::
  "utils \<Rightarrow> string \<Rightarrow> string option \<Rightarrow> string option \<Rightarrow> string \<times> string option \<times> string option" where
  "adjust_paths U app_spec destination answers_file0 =
     (if isabs app_spec then path_join (getRoot U) (lstrip_slash app_spec) else app_spec,
      case destination of
        None \<Rightarrow> None
      | Some d \<Rightarrow> if d \<noteq> [] \<and> isabs d then Some (path_join (getRoot U) (lstrip_slash d)) else Some d,
      case answers_file0 of
        None \<Rightarrow> None
      | Some f \<Rightarrow> if f \<noteq> [] \<and> isabs f then Some (path_join (getRoot U) (lstrip_slash f)) else Some f)"

text \<open>Lines 62 to 67: the destination \<open>none\<close> asks for a temporary directory.\<close>

definition none_destination :: "utils \<Rightarrow> string option \<Rightarrow> state \<Rightarrow> (error + string option) \<times> state" where
  "none_destination U destination =
     (case destination of
        None \<Rightarrow> ret None
      | Some d \<Rightarrow>
          if d \<noteq> [] \<and> lower d = ''none''
          then andthen (call_fs (mkdtemp U ''atomicapp''))
                 (\<lambda>t. andthen (emit (EvMkdtemp t)) (\<lambda>_. ret (Some t)))
          else ret (Some d))"

text \<open>Lines 69 to 86: an image or a path, a copy to the destination, the app path.\<close>

definition locate_app :: "utils \<Rightarrow> string \<Rightarrow> string option \<Rightarrow> state \<Rightarrow> (error + unit) \<times> state" where
  "locate_app U app_spec destination =
     andthen
       (\<lambda>s. if \<not> exists_path (wld s) app_spec
            then assign (\<lambda>m. m\<lparr>image_name := Some app_spec\<rparr>) s
            else assign (\<lambda>m. m\<lparr>app_path := Some app_spec\<rparr>) s)
       (\<lambda>_. andthen
          (\<lambda>s. case (app_path (mgr s), destination) of
                 (Some p, Some d) \<Rightarrow>
                   if p \<noteq> [] \<and> d \<noteq> []
                   then andthen (emit (EvCopyDir p d True))
                          (\<lambda>_. andthen (call_fs (copy_dir U p d True))
                             (\<lambda>_. assign (\<lambda>m. m\<lparr>app_path := Some d\<rparr>))) s
                   else ret () s
               | _ \<Rightarrow> ret () s)
          (\<lambda>_ s. case image_name (mgr s) of
                   None \<Rightarrow> ret () s
                 | Some img \<Rightarrow>
                     if img \<noteq> []
                     then (if truthy_str destination
                           then assign (\<lambda>m. m\<lparr>app_path := destination\<rparr>) s
                           else assign (\<lambda>m. m\<lparr>app_path := Some (getNewAppCacheDir U img)\<rparr>) s)
                     else ret () s))"

text \<open>Lines 105 to 110: the values detected on the platform.\<close>

definition environ_get :: "utils \<Rightarrow> string \<Rightarrow> state \<Rightarrow> (error + string) \<times> state" where
  "environ_get U k = (case environ U k of None \<Rightarrow> raise (KeyError k) | Some v \<Rightarrow> ret v)"

definition openshift_overrides :: "utils \<Rightarrow> state \<Rightarrow> (error + unit) \<times> state" where
  "openshift_overrides U =
     (if running_on_openshift U
      then andthen (set_answer ''provider'' (SStr ''openshift''))
             (\<lambda>_. andthen (environ_get U ''TOKEN_ENV_VAR'')
                (\<lambda>t. andthen (set_answer ''accesstoken'' (SStr t))
                   (\<lambda>_. andthen (environ_get U ''POD_NAMESPACE'')
                      (\<lambda>n. andthen (set_answer ''namespace'' (SStr n))
                         (\<lambda>_. andthen
                            (case get_openshift_api_endpoint_from_env U of
                               Inl e \<Rightarrow> raise e
                             | Inr v \<Rightarrow> ret v)
                            (\<lambda>api. set_answer ''providerapi'' (SStr api)))))))
      else ret ())"

text \<open>
  Lines 44 to 49: the attributes as construction first sets them, the answers being a
  new copy of the defaults. \<open>main_file\<close> and \<open>nulecule\<close> are attributes the object does
  not have yet. Lines 94 to 99 check the answers file the caller named.
\<close>

definition new_manager :: "nat \<Rightarrow> section_dict option \<Rightarrow> manager" where
  "new_manager a cli =
     \<lparr>answers = a, cli_answers = cli, answers_format = None, answers_file = None,
      app_path = None, image_name = None, main_file = None, nulecule = None\<rparr>"

text \<open>
  \<open>__init__(app_spec, destination, cli_answers, answers_file)\<close>, from a world and the
  calls made so far. An exception leaves no controller.
\<close>

definition initial_state :: "section_dict option \<Rightarrow> world \<Rightarrow> event list \<Rightarrow> state" where
  "initial_state cli w tr =
     (case build_doc DEFAULT_ANSWERS w of (a, w0) \<Rightarrow> \<lparr>mgr = new_manager a cli, wld = w0, trc = tr\<rparr>)"

definition check_answers_file :: "string option \<Rightarrow> state \<Rightarrow> (error + unit) \<times> state" where
  "check_answers_file answers_file1 =
     (case answers_file1 of
        None \<Rightarrow> ret ()
      | Some f \<Rightarrow>
          if f \<noteq> []
          then (\<lambda>s. if \<not> isfile (wld s) f
                    then raise (NuleculeException (''Answers file doesn't exist: '' @ f)) s
                    else assign (\<lambda>m. m\<lparr>answers_file := Some f\<rparr>) s)
          else ret ())"

definition init ::
  "utils \<Rightarrow> string \<Rightarrow> string option \<Rightarrow> section_dict option \<Rightarrow> string option \<Rightarrow> world \<Rightarrow> event list
     \<Rightarrow> (error + unit) \<times> state" where
  "init U app_spec0 destination0 cli answers_file0 w tr =
     (case adjust_paths U app_spec0 destination0 answers_file0 of
        (app_spec, destination1, answers_file1) \<Rightarrow>
          andthen (none_destination U destination1)
            (\<lambda>destination. andthen (locate_app U app_spec destination)
               (\<lambda>_. andthen
                  (\<lambda>s. andthen (join_opt (app_path (mgr s)) MAIN_FILE)
                         (\<lambda>p. assign (\<lambda>m. m\<lparr>main_file := Some p\<rparr>)) s)
                  (\<lambda>_. andthen (check_answers_file answers_file1)
                     (\<lambda>_. andthen process_answers (\<lambda>_. openshift_overrides U)))))
            (initial_state cli w tr))"

subsection \<open>Operations\<close>

text \<open>\<open>unpack(update, dryrun, nodeps, config)\<close>: an image is unpacked, a path is loaded.\<close>

definition load_from_path :: "engine \<Rightarrow> bool \<Rightarrow> nat option \<Rightarrow> state \<Rightarrow> (error + handle) \<times> state" where
  "load_from_path E dryrun config s =
     andthen (emit (EvLoadFromPath (app_path (mgr s)) (map_option (dump (wld s)) config) dryrun))
       (\<lambda>_. call (e_load_from_path E (app_path (mgr s)) dryrun config)) s"

definition unpack :: "engine \<Rightarrow> bool \<Rightarrow> bool \<Rightarrow> bool \<Rightarrow> nat option \<Rightarrow> state \<Rightarrow> (error + handle) \<times> state" where
  "unpack E update dryrun nodeps config s =
     (case image_name (mgr s) of
        None \<Rightarrow> load_from_path E dryrun config s
      | Some img \<Rightarrow>
          if img \<noteq> []
          then andthen
                 (emit (EvUnpack img (app_path (mgr s)) (map_option (dump (wld s)) config)
                          nodeps dryrun update))
                 (\<lambda>_. call (e_unpack E img (app_path (mgr s)) config nodeps dryrun update)) s
          else load_from_path E dryrun config s)"

text \<open>Calls on \<open>self.nulecule\<close>; the attribute is missing until an operation has set it.\<close>

definition on_nulecule ::
  "(handle \<Rightarrow> state \<Rightarrow> (error + handle) \<times> state) \<Rightarrow> state \<Rightarrow> (error + unit) \<times> state" where
  "on_nulecule f s =
     (case nulecule (mgr s) of
        None \<Rightarrow> raise AttributeError s
      | Some n \<Rightarrow> andthen (f n) (\<lambda>n'. assign (\<lambda>m. m\<lparr>nulecule := Some n'\<rparr>)) s)"

definition load_config :: "engine \<Rightarrow> nat \<Rightarrow> bool \<Rightarrow> bool \<Rightarrow> handle \<Rightarrow> state \<Rightarrow> (error + handle) \<times> state" where
  "load_config E config ask skip_asking n s =
     andthen (emit (EvLoadConfig (dump (wld s) config) ask skip_asking))
       (\<lambda>_. call (e_load_config E n config ask skip_asking)) s"

definition render :: "engine \<Rightarrow> string option \<Rightarrow> bool \<Rightarrow> handle \<Rightarrow> state \<Rightarrow> (error + handle) \<times> state" where
  "render E provider dryrun n =
     andthen (emit (EvRender provider dryrun)) (\<lambda>_. call (e_render E n provider dryrun))"

definition run_nulecule :: "engine \<Rightarrow> string option \<Rightarrow> bool \<Rightarrow> handle \<Rightarrow> state \<Rightarrow> (error + handle) \<times> state" where
  "run_nulecule E provider dryrun n =
     andthen (emit (EvRun provider dryrun)) (\<lambda>_. call (e_run E n provider dryrun))"

definition stop_nulecule :: "engine \<Rightarrow> string option \<Rightarrow> bool \<Rightarrow> handle \<Rightarrow> state \<Rightarrow> (error + handle) \<times> state" where
  "stop_nulecule E provider dryrun n =
     andthen (emit (EvStop provider dryrun)) (\<lambda>_. call (e_stop E n provider dryrun))"

text \<open>\<open>self._get_runtime_answers(self.nulecule.config, cli_provider)\<close>.\<close>

definition runtime_answers_of_nulecule :: "string option \<Rightarrow> state \<Rightarrow> (error + nat) \<times> state" where
  "runtime_answers_of_nulecule cli_provider s =
     (case nulecule (mgr s) of
        None \<Rightarrow> raise AttributeError s
      | Some n \<Rightarrow> call (get_runtime_answers (b_config n) cli_provider) s)"

text \<open>\<open>self.answers_format = answers_format or ANSWERS_FILE_SAMPLE_FORMAT\<close>.\<close>

definition set_answers_format :: "string option \<Rightarrow> state \<Rightarrow> (error + unit) \<times> state" where
  "set_answers_format fmt =
     assign (\<lambda>m. m\<lparr>answers_format := (if truthy_str fmt then fmt else Some ANSWERS_FILE_SAMPLE_FORMAT)\<rparr>)"

text \<open>\<open>genanswers(dryrun, answers_format)\<close>.\<close>

definition genanswers :: "utils \<Rightarrow> engine \<Rightarrow> bool \<Rightarrow> string option \<Rightarrow> state \<Rightarrow> (error + unit) \<times> state" where
  "genanswers U E dryrun fmt =
     andthen (set_answers_format fmt)
       (\<lambda>_. andthen
          (\<lambda>s. if exists_path (wld s) (path_join (getcwd U) ANSWERS_FILE)
               then raise (NuleculeException ''Can't generate answers.conf over existing file'') s
               else ret () s)
          (\<lambda>_. andthen (\<lambda>s. unpack E False dryrun False (Some (answers (mgr s))) s)
             (\<lambda>n. andthen (assign (\<lambda>m. m\<lparr>nulecule := Some n\<rparr>))
                (\<lambda>_. andthen (on_nulecule (\<lambda>n. load_config E (b_config n) False True n))
                   (\<lambda>_. andthen (runtime_answers_of_nulecule None)
                      (\<lambda>a. write_answers (path_join (getcwd U) ANSWERS_FILE) a fmt))))))"

text \<open>\<open>install(nodeps, update, dryrun, answers_format)\<close>.\<close>

definition install ::
  "utils \<Rightarrow> engine \<Rightarrow> bool \<Rightarrow> bool \<Rightarrow> bool \<Rightarrow> string option \<Rightarrow> state \<Rightarrow> (error + unit) \<times> state" where
  "install U E nodeps update dryrun fmt =
     andthen (set_answers_format fmt)
       (\<lambda>_. andthen (\<lambda>s. unpack E update dryrun False (Some (answers (mgr s))) s)
          (\<lambda>n. andthen (assign (\<lambda>m. m\<lparr>nulecule := Some n\<rparr>))
             (\<lambda>_. andthen (on_nulecule (\<lambda>n. load_config E (b_config n) False True n))
                (\<lambda>_. andthen (runtime_answers_of_nulecule None)
                   (\<lambda>a. andthen (\<lambda>s. join_opt (app_path (mgr s)) ANSWERS_FILE_SAMPLE s)
                      (\<lambda>p. write_answers p a fmt))))))"

text \<open>\<open>run(cli_provider, answers_output, ask, answers_format, dryrun=...)\<close>.\<close>

definition select_provider :: "utils \<Rightarrow> string option \<Rightarrow> state \<Rightarrow> (error + unit) \<times> state" where
  "select_provider U cli_provider s =
     (case getSupportedProviders U (app_path (mgr s)) (fs (wld s)) of
        [p] \<Rightarrow> if cli_provider = None then set_answer PROVIDER_KEY (SStr p) s else ret () s
      | _ \<Rightarrow> ret () s)"

definition run ::
  "utils \<Rightarrow> engine \<Rightarrow> string option \<Rightarrow> string option \<Rightarrow> bool \<Rightarrow> string option \<Rightarrow> bool
     \<Rightarrow> state \<Rightarrow> (error + unit) \<times> state" where
  "run U E cli_provider answers_output ask fmt dryrun =
     andthen (set_answers_format fmt)
       (\<lambda>_. andthen (\<lambda>s. unpack E False dryrun False (Some (answers (mgr s))) s)
          (\<lambda>n. andthen (assign (\<lambda>m. m\<lparr>nulecule := Some n\<rparr>))
             (\<lambda>_. andthen
                (\<lambda>s. if \<not> truthy_str (answers_file (mgr s)) then process_answers s else ret () s)
                (\<lambda>_. andthen (select_provider U cli_provider)
                   (\<lambda>_. andthen (on_nulecule (\<lambda>n. load_config E (b_config n) ask False n))
                      (\<lambda>_. andthen (on_nulecule (render E cli_provider dryrun))
                         (\<lambda>_. andthen (on_nulecule (run_nulecule E cli_provider dryrun))
                            (\<lambda>_. andthen (runtime_answers_of_nulecule cli_provider)
                               (\<lambda>a. andthen
                                  (\<lambda>s. andthen (join_opt (app_path (mgr s)) ANSWERS_RUNTIME_FILE)
                                         (\<lambda>p s'. write_answers p a (answers_format (mgr s')) s') s)
                                  (\<lambda>_ s. case answers_output of
                                           None \<Rightarrow> ret () s
                                         | Some out \<Rightarrow>
                                             if out \<noteq> []
                                             then write_answers out a (answers_format (mgr s)) s
                                             else ret () s))))))))))"

text \<open>\<open>stop(cli_provider, dryrun=...)\<close>.\<close>

definition stop :: "engine \<Rightarrow> string option \<Rightarrow> bool \<Rightarrow> state \<Rightarrow> (error + unit) \<times> state" where
  "stop E cli_provider dryrun =
     andthen
       (\<lambda>s. andthen (join_opt (app_path (mgr s)) ANSWERS_RUNTIME_FILE)
              (\<lambda>p. assign (\<lambda>m. m\<lparr>answers_file := Some p\<rparr>)) s)
       (\<lambda>_. andthen process_answers
          (\<lambda>_. andthen (\<lambda>s. load_from_path E dryrun (Some (answers (mgr s))) s)
             (\<lambda>n. andthen (assign (\<lambda>m. m\<lparr>nulecule := Some n\<rparr>))
                (\<lambda>_. andthen (on_nulecule (\<lambda>n s. load_config E (answers (mgr s)) False False n s))
                   (\<lambda>_. andthen (on_nulecule (render E cli_provider dryrun))
                      (\<lambda>_. on_nulecule (stop_nulecule E cli_provider dryrun)))))))"

text \<open>
  \<open>uninstall()\<close> and \<open>clean(force)\<close> begin with \<open>self.stop()\<close>, a call without the
  provider that \<open>stop\<close> requires: Python raises a TypeError before \<open>stop\<close> runs.
\<close>

definition uninstall :: "state \<Rightarrow> (error + unit) \<times> state" where
  "uninstall = raise TypeError"

definition clean :: "bool \<Rightarrow> state \<Rightarrow> (error + unit) \<times> state" where
  "clean force = uninstall"

section \<open>A small environment for concrete runs\<close>

text \<open>
  Helpers and an engine for evaluating the controller on concrete inputs. The helpers
  create the directory they are asked for and nothing else. The engine keeps the
  reference to the configuration it is given, as a Python callee does, never changes a
  configuration, and on unpacking an image writes the answers file embedded in the
  image (when it has one) into the destination, unless the run is dry.
\<close>

definition stub_utils :: "bool \<Rightarrow> string list \<Rightarrow> utils" where
  "stub_utils openshift providers =
     \<lparr>getRoot = ''/'',
      getcwd = ''/work'',
      mkdtemp = (\<lambda>prefix files. (Inr (''/tmp/'' @ prefix), files(''/tmp/'' @ prefix \<mapsto> Dir))),
      copy_dir = (\<lambda>src dst update files. (Inr (), files(dst \<mapsto> Dir))),
      getNewAppCacheDir = (\<lambda>img. ''/var/lib/atomicapp/'' @ img),
      running_on_openshift = openshift,
      environ = [''TOKEN_ENV_VAR'' \<mapsto> ''secret'', ''POD_NAMESPACE'' \<mapsto> ''pod-ns''],
      get_openshift_api_endpoint_from_env = Inr ''https://api.example'',
      getSupportedProviders = (\<lambda>p files. providers)\<rparr>"

definition stub_engine :: "fdoc option \<Rightarrow> engine" where
  "stub_engine embedded =
     \<lparr>e_unpack = (\<lambda>img dest config nodeps dryrun update w.
        (case config of
           None \<Rightarrow> (Inl (ExternalError ''no config''), w)
         | Some c \<Rightarrow>
             (Inr \<lparr>b_config = c, b_basepath = dest\<rparr>,
              (case (dest, embedded) of
                 (Some d, Some content) \<Rightarrow>
                   if dryrun then w
                   else w\<lparr>fs := (fs w)(d \<mapsto> Dir, path_join d ANSWERS_FILE \<mapsto> File (Some content))\<rparr>
               | _ \<Rightarrow> w)))),
      e_load_from_path = (\<lambda>src dryrun config w.
        (case config of
           None \<Rightarrow> (Inl (ExternalError ''no config''), w)
         | Some c \<Rightarrow> (Inr \<lparr>b_config = c, b_basepath = src\<rparr>, w))),
      e_load_config = (\<lambda>n config ask skip_asking w. (Inr (n\<lparr>b_config := config\<rparr>), w)),
      e_render = (\<lambda>n provider dryrun w. (Inr n, w)),
      e_run = (\<lambda>n provider dryrun w. (Inr n, w)),
      e_stop = (\<lambda>n provider dryrun w. (Inr n, w))\<rparr>"

definition empty_world :: world where
  "empty_world = \<lparr>sects = Map.empty, docs = Map.empty, fresh_addr = 0, fs = Map.empty\<rparr>"

text \<open>A store holding one configuration: a document at address 1, its global section at 0.\<close>

definition config_world :: world where
  "config_world =
     empty_world\<lparr>sects := [0 \<mapsto> [(''provider'', SStr ''docker'')]],
                 docs := [1 \<mapsto> [(''general'', VDict 0)]],
                 fresh_addr := 2\<rparr>"

text \<open>
  A file system with an application directory, one that also has a directory for an
  export, and one that also has an answers file.
\<close>

definition app_world :: world where
  "app_world = empty_world\<lparr>fs := [''/app'' \<mapsto> Dir]\<rparr>"

definition export_world :: world where
  "export_world = empty_world\<lparr>fs := [''/app'' \<mapsto> Dir, ''/out'' \<mapsto> Dir]\<rparr>"

definition answers_world :: "fdoc \<Rightarrow> world" where
  "answers_world content =
     empty_world\<lparr>fs := [''/app'' \<mapsto> Dir, ''/etc/answers.conf'' \<mapsto> File (Some content)]\<rparr>"

text \<open>
  A root other than \<open>/\<close>, a construction that promotes a local application to a
  destination, and a controller whose working directory already holds an answers file.
\<close>

definition host_utils :: utils where
  "host_utils = (stub_utils False [])\<lparr>getRoot := ''/host''\<rparr>"


definition conflict_state :: state where
  "conflict_state =
     snd (init (stub_utils False []) ''/app'' None None None
            (empty_world\<lparr>fs := [''/app'' \<mapsto> Dir, ''/work/answers.conf'' \<mapsto> File (Some [])]\<rparr>) [])"

text \<open>
  A controller built on the application directory with defaults only; the same with its
  answers file set to a file that holds a namespace; and a controller that ran with one
  supported provider, so that a runtime answers file is in its app path; and one on
  which \<open>stop\<close> was called before any run.
\<close>

definition plain_input :: "(error + unit) \<times> state" where
  "plain_input = init (stub_utils False []) ''/app'' None None None app_world []"


definition ran_state :: state where
  "ran_state =
     snd (run (stub_utils False [''docker'']) (stub_engine None) None None False None False
            (snd plain_input))"

definition stopped_state :: state where
  "stopped_state = snd (stop (stub_engine None) None False (snd plain_input))"

section \<open>Observations\<close>


text \<open>The same for a document by value, and the lookup of a key in one of its sections.\<close>

definition fdoc_lookup2 :: "fdoc \<Rightarrow> string \<Rightarrow> string \<Rightarrow> scalar option" where
  "fdoc_lookup2 content k1 k2 =
     (case map_of content k1 of
        Some (FSect sec) \<Rightarrow> map_of sec k2
      | _ \<Rightarrow> None)"


text \<open>Kinds of calls in a trace.\<close>

definition is_unpack :: "event \<Rightarrow> bool" where
  "is_unpack e = (case e of EvUnpack img dest config nodeps dryrun update \<Rightarrow> True | _ \<Rightarrow> False)"

definition is_load_answers :: "event \<Rightarrow> bool" where
  "is_load_answers e = (case e of EvLoadAnswers f \<Rightarrow> True | _ \<Rightarrow> False)"


text \<open>The keys the command line gave.\<close>

definition cli_keys :: "manager \<Rightarrow> string set" where
  "cli_keys m = (case cli_answers m of None \<Rightarrow> {} | Some kvs \<Rightarrow> fst ` set kvs)"

text \<open>
  What an operation leaves alone: the attributes of the controller other than the
  answers format and the bundle handle, and the trace, which only grows, by events of a
  given kind. An operation is quiet when it does so from every state, settled when it
  does so from every state whose answers file path is set.
\<close>

definition same_core :: "manager \<Rightarrow> manager \<Rightarrow> bool" where
  "same_core m m' =
     (answers m' = answers m \<and> cli_answers m' = cli_answers m \<and>
      answers_file m' = answers_file m \<and> app_path m' = app_path m \<and>
      image_name m' = image_name m \<and> main_file m' = main_file m)"

definition grows :: "(event \<Rightarrow> bool) \<Rightarrow> state \<Rightarrow> state \<Rightarrow> bool" where
  "grows P s s' = (\<exists>new. trc s' = trc s @ new \<and> list_all P new)"

definition quiet :: "(event \<Rightarrow> bool) \<Rightarrow> (state \<Rightarrow> (error + 'a) \<times> state) \<Rightarrow> bool" where
  "quiet P f = (\<forall>s r s'. f s = (r, s') \<longrightarrow> same_core (mgr s) (mgr s') \<and> grows P s s')"

definition settled :: "(event \<Rightarrow> bool) \<Rightarrow> (state \<Rightarrow> (error + 'a) \<times> state) \<Rightarrow> bool" where
  "settled P f =
     (\<forall>s r s'. truthy_str (answers_file (mgr s)) \<longrightarrow> f s = (r, s') \<longrightarrow>
        same_core (mgr s) (mgr s') \<and> grows P s s')"

section \<open>Sequencing and frames\<close>


lemma merge_cli_frame: "merge_cli kvs s = (r, s') \<Longrightarrow> mgr s' = mgr s \<and> trc s' = trc s"
proof (induction kvs arbitrary: s)
  case Nil then show ?case by (simp add: ret_def)
next
  case (Cons kv kvs)
  obtain k v where kv: "kv = (k, v)" by (cases kv)
  show ?case using Cons.prems Cons.IH
    by (auto simp: kv andthen_def set_answer_def call_def split: prod.splits sum.splits)
qed







section \<open>Paths under the root\<close>

lemma lstrip_not_abs: "\<not> isabs (lstrip_slash p)"
  by (induction p) (auto simp: isabs_def lstrip_slash_def split: list.splits)

lemma join_stripped:
  "path_join R (lstrip_slash p) =
     (if R = [] \<or> last R = CHR ''/'' then R @ lstrip_slash p else R @ ''/'' @ lstrip_slash p)"
  by (simp add: path_join_def lstrip_not_abs)

text \<open>
  Claim C5: an absolute source, destination or answers file path is rewritten to the
  root joined with the path stripped of its leading separators, and the join keeps the
  root (the stripped path is never absolute); a relative one is left as it is. The
  rewriting is a function of the root and the path, so the same input gives the same
  output.
\<close>

theorem adjust_paths_under_root:
  "(isabs p \<longrightarrow>
      fst (adjust_paths U p d f) = path_join (getRoot U) (lstrip_slash p) \<and>
      fst (snd (adjust_paths U a (Some p) f)) = Some (path_join (getRoot U) (lstrip_slash p)) \<and>
      snd (snd (adjust_paths U a d (Some p))) = Some (path_join (getRoot U) (lstrip_slash p)) \<and>
      path_join (getRoot U) (lstrip_slash p) =
        (if getRoot U = [] \<or> last (getRoot U) = CHR ''/'' then getRoot U @ lstrip_slash p
         else getRoot U @ ''/'' @ lstrip_slash p)) \<and>
   (\<not> isabs p \<longrightarrow>
      fst (adjust_paths U p d f) = p \<and>
      fst (snd (adjust_paths U a (Some p) f)) = Some p \<and>
      snd (snd (adjust_paths U a d (Some p))) = Some p)"
  by (auto simp: adjust_paths_def join_stripped isabs_def)

theorem adjust_paths_under_root_witness:
  "isabs ''/srv/app'' \<and>
   fst (adjust_paths host_utils ''/srv/app'' None None) = ''/host/srv/app'' \<and>
   fst (snd (adjust_paths host_utils ''img'' (Some ''/srv/app'') None)) = Some ''/host/srv/app'' \<and>
   snd (snd (adjust_paths host_utils ''img'' None (Some ''/srv/app''))) = Some ''/host/srv/app'' \<and>
   \<not> isabs ''etc/answers.conf'' \<and>
   snd (snd (adjust_paths host_utils ''img'' None (Some ''etc/answers.conf''))) = Some ''etc/answers.conf''"
proof -
  have abs: "isabs ''/srv/app''" and rel: "\<not> isabs ''etc/answers.conf''"
    by (simp_all add: isabs_def)
  have root: "getRoot host_utils = ''/host''" and strip: "lstrip_slash ''/srv/app'' = ''srv/app''"
    by (simp_all add: host_utils_def stub_utils_def lstrip_slash_def)
  from adjust_paths_under_root[of "''/srv/app''" host_utils None None "''img''"] abs root strip
  have "fst (adjust_paths host_utils ''/srv/app'' None None) = ''/host/srv/app''"
       "fst (snd (adjust_paths host_utils ''img'' (Some ''/srv/app'') None)) = Some ''/host/srv/app''"
       "snd (snd (adjust_paths host_utils ''img'' None (Some ''/srv/app''))) = Some ''/host/srv/app''"
    by simp_all
  moreover from adjust_paths_under_root[of "''etc/answers.conf''" host_utils None None "''img''"] rel
  have "snd (snd (adjust_paths host_utils ''img'' None (Some ''etc/answers.conf''))) = Some ''etc/answers.conf''"
    by simp
  ultimately show ?thesis using abs rel by simp
qed

section \<open>Generating answers over an existing file\<close>

text \<open>
  Claim C8: when the conventional answers file exists in the working directory,
  \<open>genanswers\<close> raises its exception before it unpacks: no call is made to a
  collaborator, and the store and the file system, the existing file with them, are as
  they were.
\<close>

theorem genanswers_existing_file:
  assumes "exists_path (wld s) (path_join (getcwd U) ANSWERS_FILE)"
  shows "case genanswers U E dryrun fmt s of
           (r, s') \<Rightarrow>
             (\<exists>msg. r = Inl (NuleculeException msg)) \<and> wld s' = wld s \<and> trc s' = trc s"
  using assms
  by (simp add: genanswers_def andthen_def set_answers_format_def assign_def raise_def)

theorem genanswers_existing_file_witness:
  "exists_path (wld conflict_state) (path_join (getcwd (stub_utils False [])) ANSWERS_FILE) \<and>
   (case genanswers (stub_utils False []) (stub_engine None) False None conflict_state of
      (r, s') \<Rightarrow>
        (\<exists>msg. r = Inl (NuleculeException msg)) \<and>
        wld s' = wld conflict_state \<and> trc s' = trc conflict_state)"
proof -
  have h: "exists_path (wld conflict_state) (path_join (getcwd (stub_utils False [])) ANSWERS_FILE)"
    unfolding conflict_state_def by code_simp
  from genanswers_existing_file[OF h, of "stub_engine None" False None] h show ?thesis
    by simp
qed

section \<open>Documents in the store\<close>

lemma build_items_frame:
  "build_items kvs w = (items, w') \<Longrightarrow>
     fresh_addr w \<le> fresh_addr w' \<and> docs w' = docs w \<and> fs w' = fs w \<and>
     (\<forall>a < fresh_addr w. sects w' a = sects w a) \<and>
     (\<forall>k b. (k, VDict b) \<in> set items \<longrightarrow> sects w' b \<noteq> None) \<and>
     map (\<lambda>(k, v). (k, dump_val w' v)) items = kvs"
proof (induction kvs w arbitrary: items w' rule: build_items.induct)
  case (1 w)
  then show ?case by simp
next
  case (2 k s kvs w)
  then show ?case by (auto simp: dump_val_def split: prod.splits)
next
  case (3 k s kvs w)
  obtain a w1 where ns: "new_sect s w = (a, w1)" by (cases "new_sect s w")
  obtain r w2 where bi: "build_items kvs w1 = (r, w2)" by (cases "build_items kvs w1")
  from ns have a: "a = fresh_addr w" "fresh_addr w1 = Suc (fresh_addr w)" "docs w1 = docs w" "fs w1 = fs w"
    "sects w1 = (sects w)(a \<mapsto> s)"
    by (auto simp: new_sect_def)
  from "3.IH"[OF ns[symmetric] refl bi] have ih: "fresh_addr w1 \<le> fresh_addr w2" "docs w2 = docs w1" "fs w2 = fs w1"
     "\<forall>a < fresh_addr w1. sects w2 a = sects w1 a"
     "\<forall>k b. (k, VDict b) \<in> set r \<longrightarrow> sects w2 b \<noteq> None"
     "map (\<lambda>(k, v). (k, dump_val w2 v)) r = kvs"
    by auto
  from "3.prems" ns bi have res: "items = (k, VDict a) # r" "w' = w2" by auto
  from ih(4) a have "sects w2 a = Some s" by simp
  with ih a res show ?case by (auto simp: dump_val_def)
qed

lemma build_doc_dump:
  assumes "build_doc content w = (a, w')"
  shows "dump w' a = content \<and> fs w' = fs w"
proof -
  obtain items w1 where bi: "build_items content w = (items, w1)" by (cases "build_items content w")
  from assms bi have r: "a = fresh_addr w1" "w' = w1\<lparr>docs := (docs w1)(fresh_addr w1 \<mapsto> items), fresh_addr := Suc (fresh_addr w1)\<rparr>"
    by (auto simp: build_doc_def new_doc_def)
  from build_items_frame[OF bi] have "map (\<lambda>(k, v). (k, dump_val w1 v)) items = content" "fs w1 = fs w" by auto
  moreover have "dump_val w' v = dump_val w1 v" for v by (cases v) (simp_all add: r dump_val_def)
  ultimately show ?thesis by (simp add: dump_def r)
qed

lemma map_of_dump:
  "map_of (dump w d) k = (case docs w d of None \<Rightarrow> None | Some items \<Rightarrow> map_option (dump_val w) (map_of items k))"
proof (cases "docs w d")
  case None then show ?thesis by (simp add: dump_def)
next
  case (Some items)
  have "map_of (map (\<lambda>(k, v). (k, dump_val w v)) items) k = map_option (dump_val w) (map_of items k)"
    by (induction items) auto
  with Some show ?thesis by (simp add: dump_def)
qed

lemma fdoc_lookup2_dump: "fdoc_lookup2 (dump w d) k1 k2 = lookup2 w d k1 k2"
  by (auto simp: fdoc_lookup2_def lookup2_def lookup_sect_def map_of_dump dump_val_def
      split: option.splits pyval.splits fval.splits)

lemma loadAnswers_ok:
  assumes "fs w f = Some (File (Some content))"
  shows "\<exists>a w' items. loadAnswers f w = (Inr a, w') \<and> fs w' = fs w \<and> dump w' a = content \<and>
           docs w' a = Some items \<and>
           (\<forall>g. map_of content GLOBAL_CONF = Some (FSect g) \<longrightarrow>
                (\<exists>b. map_of items GLOBAL_CONF = Some (VDict b) \<and> sects w' b = Some g))"
proof -
  obtain a w' where bd: "build_doc content w = (a, w')" by (cases "build_doc content w")
  obtain items w1 where bi: "build_items content w = (items, w1)" by (cases "build_items content w")
  from bd bi have r: "a = fresh_addr w1" "w' = w1\<lparr>docs := (docs w1)(fresh_addr w1 \<mapsto> items), fresh_addr := Suc (fresh_addr w1)\<rparr>"
    by (auto simp: build_doc_def new_doc_def)
  have d: "docs w' a = Some items" by (simp add: r)
  note fr = build_items_frame[OF bi]
  have "\<exists>b. map_of items GLOBAL_CONF = Some (VDict b) \<and> sects w' b = Some g"
    if g: "map_of content GLOBAL_CONF = Some (FSect g)" for g
  proof -
    from build_doc_dump[OF bd] have "map_of (dump w' a) GLOBAL_CONF = Some (FSect g)" using g by simp
    then obtain v where v: "map_of items GLOBAL_CONF = Some v" "dump_val w' v = FSect g"
      by (auto simp: map_of_dump d)
    then obtain b where b: "v = VDict b" "(case sects w' b of None \<Rightarrow> [] | Some s \<Rightarrow> s) = g"
      by (cases v) (auto simp: dump_val_def)
    from v(1) b(1) have "(GLOBAL_CONF, VDict b) \<in> set items" by (auto dest: map_of_SomeD)
    with fr have "sects w1 b \<noteq> None" by blast
    then have "sects w' b \<noteq> None" by (simp add: r)
    with b v show ?thesis by auto
  qed
  with build_doc_dump[OF bd] d assms bd show ?thesis by (auto simp: loadAnswers_def)
qed

lemma setitem2_ok:
  assumes "docs w d = Some items" "map_of items k1 = Some (VDict a)" "sects w a = Some sec"
  shows "setitem2 d k1 k2 v w = (Inr (), w\<lparr>sects := (sects w)(a \<mapsto> AList.update k2 v sec)\<rparr>)"
  using assms by (simp add: setitem2_def setitem_sect_def)

lemma merge_cli_ok:
  assumes "docs (wld s) (answers (mgr s)) = Some items" "map_of items GLOBAL_CONF = Some (VDict a)"
      "sects (wld s) a = Some sec"
  shows "\<exists>s' sec'. merge_cli kvs s = (Inr (), s') \<and> mgr s' = mgr s \<and> trc s' = trc s \<and>
           docs (wld s') = docs (wld s) \<and> fs (wld s') = fs (wld s) \<and>
           sects (wld s') a = Some sec' \<and>
           (\<forall>k. k \<notin> fst ` set kvs \<longrightarrow> map_of sec' k = map_of sec k) \<and>
           (\<forall>k. map_of sec k \<noteq> None \<longrightarrow> map_of sec' k \<noteq> None)"
  using assms
proof (induction kvs arbitrary: s sec)
  case Nil
  then show ?case by (simp add: ret_def)
next
  case (Cons kv kvs)
  obtain k v where kv: "kv = (k, v)" by (cases kv)
  let ?s1 = "s\<lparr>wld := (wld s)\<lparr>sects := (sects (wld s))(a \<mapsto> AList.update k v sec)\<rparr>\<rparr>"
  have step: "set_answer k v s = (Inr (), ?s1)"
    using Cons.prems by (simp add: set_answer_def call_def setitem2_ok)
  have "\<exists>s' sec'. merge_cli kvs ?s1 = (Inr (), s') \<and> mgr s' = mgr ?s1 \<and> trc s' = trc ?s1 \<and>
           docs (wld s') = docs (wld ?s1) \<and> fs (wld s') = fs (wld ?s1) \<and>
           sects (wld s') a = Some sec' \<and>
           (\<forall>k'. k' \<notin> fst ` set kvs \<longrightarrow> map_of sec' k' = map_of (AList.update k v sec) k') \<and>
           (\<forall>k'. map_of (AList.update k v sec) k' \<noteq> None \<longrightarrow> map_of sec' k' \<noteq> None)"
    using Cons.prems by (intro Cons.IH) auto
  then obtain s' sec' where r: "merge_cli kvs ?s1 = (Inr (), s')" "mgr s' = mgr s" "trc s' = trc s"
     "docs (wld s') = docs (wld s)" "fs (wld s') = fs (wld s)" "sects (wld s') a = Some sec'"
     "\<forall>k'. k' \<notin> fst ` set kvs \<longrightarrow> map_of sec' k' = map_of (AList.update k v sec) k'"
     "\<forall>k'. map_of (AList.update k v sec) k' \<noteq> None \<longrightarrow> map_of sec' k' \<noteq> None"
    by auto
  have "\<forall>k'. k' \<notin> fst ` set (kv # kvs) \<longrightarrow> map_of sec' k' = map_of sec k'"
    using r(7) by (auto simp: kv update_conv')
  moreover have "\<forall>k'. map_of sec k' \<noteq> None \<longrightarrow> map_of sec' k' \<noteq> None"
    using r(8) by (auto simp: update_conv')
  ultimately show ?case using r step by (auto simp: kv andthen_def)
qed


















section \<open>Runtime answers and the given configuration\<close>

text \<open>
  Claim C3: \<open>_get_runtime_answers\<close> never changes the document it is given. The code copies
  the document and then puts the given document's own global section into the copy, so
  the namespace default and the provider are written into the caller's section. Here the
  given configuration holds provider \<open>docker\<close> and no namespace; after the call with the
  explicit provider \<open>kubernetes\<close> the given configuration itself holds \<open>kubernetes\<close> and
  the default namespace.
\<close>

theorem get_runtime_answers_changes_given_config:
  "dump config_world 1 = [(''general'', FSect [(''provider'', SStr ''docker'')])] \<and>
   (case get_runtime_answers 1 (Some ''kubernetes'') config_world of
      (r, w') \<Rightarrow>
        r = Inr 3 \<and>
        dump w' 1 =
          [(''general'', FSect [(''provider'', SStr ''kubernetes''), (''namespace'', SStr ''default'')])] \<and>
        dump w' 3 = dump w' 1)"
  by code_simp

section \<open>Dry runs\<close>

text \<open>
  Claim C2: with \<open>dryrun\<close> set the controller writes no answers file. The code calls
  \<open>_write_answers\<close> whatever \<open>dryrun\<close> is: a dry \<open>run\<close> on a local application, with
  an export path in an existing directory, leaves both the runtime answers file and the
  export file on the file system, where neither was before.
\<close>

theorem dry_run_writes_answers_files:
  "(case init (stub_utils False []) ''/app'' None None None export_world [] of
      (r0, s0) \<Rightarrow>
        (case run (stub_utils False []) (stub_engine None) None (Some ''/out/answers'') False None True s0 of
           (r, s) \<Rightarrow>
             r0 = Inr () \<and> r = Inr () \<and>
             fs (wld s0) ''/app'' = Some Dir \<and> fs (wld s0) ''/out'' = Some Dir \<and>
             fs (wld s0) ''/app/answers.conf.gen'' = None \<and>
             fs (wld s0) ''/out/answers'' = None \<and>
             fs (wld s) ''/app/answers.conf.gen'' =
               Some (File (Some [(''general'', FSect [(''namespace'', SStr ''default'')])])) \<and>
             fs (wld s) ''/out/answers'' =
               Some (File (Some [(''general'', FSect [(''namespace'', SStr ''default'')])]))))"
  by code_simp

section \<open>Precedence of the platform values\<close>

text \<open>
  Claim C1: the platform values win over file and command line values, also after a
  later answer resolution. The code applies them once, at the end of construction. On
  the platform, with an image whose embedded answers file names provider \<open>docker\<close>:
  after construction the provider is \<open>openshift\<close>; \<open>run\<close> unpacks, finds the
  embedded file, resolves the answers again, and the controller's document is then the
  file's content, provider \<open>docker\<close>, with none of the platform values.
\<close>

theorem rerun_resolution_drops_platform_values:
  "(case init (stub_utils True []) ''myapp'' None None None empty_world [] of
      (r0, s0) \<Rightarrow>
        (case run (stub_utils True [])
                (stub_engine (Some [(''general'', FSect [(''provider'', SStr ''docker'')])]))
                None None False None False s0 of
           (r, s) \<Rightarrow>
             r0 = Inr () \<and> r = Inr () \<and>
             lookup2 (wld s0) (answers (mgr s0)) GLOBAL_CONF PROVIDER_KEY = Some (SStr ''openshift'') \<and>
             dump (wld s) (answers (mgr s)) = [(''general'', FSect [(''provider'', SStr ''docker'')])]))"
  by code_simp

section \<open>The provider chosen by run\<close>

text \<open>
  Claim C6: with no provider on the command line and one supported provider, the runtime
  answers file names that provider. The code writes the provider into its own answers
  document and derives the file from the configuration of the bundle handle. When
  \<open>run\<close> finds an embedded answers file after unpacking, its own document is a new one,
  which the handle never sees: the provider \<open>docker\<close> is in the controller's document
  and not in the file.
\<close>

theorem selected_provider_missing_from_runtime_file:
  "(case init (stub_utils False [''docker'']) ''myapp'' None None None empty_world [] of
      (r0, s0) \<Rightarrow>
        (case run (stub_utils False [''docker''])
                (stub_engine (Some [(''general'', FSect [(''namespace'', SStr ''ns'')])]))
                None None False None False s0 of
           (r, s) \<Rightarrow>
             r0 = Inr () \<and> r = Inr () \<and>
             lookup2 (wld s) (answers (mgr s)) GLOBAL_CONF PROVIDER_KEY = Some (SStr ''docker'') \<and>
             fs (wld s) ''/var/lib/atomicapp/myapp/answers.conf.gen'' =
               Some (File (Some [(''general'', FSect [(''namespace'', SStr ''default'')])]))))"
  by code_simp

section \<open>The namespace of the global section\<close>




section \<open>After stop\<close>

text \<open>
  Claim C10 as stated fails: \<open>run\<close> loads nothing once the answers file path is set.
  After a \<open>stop\<close> that failed to load the runtime answers file (there is none yet),
  the path points at that file, and \<open>run\<close> goes on with the document loaded at
  construction from the file the caller named.
\<close>

theorem run_after_failed_stop_keeps_construction_answers:
  "(case init (stub_utils False []) ''/app'' None None (Some ''/etc/answers.conf'')
           (answers_world [(''general'', FSect [(''provider'', SStr ''docker''), (''namespace'', SStr ''dev'')])]) [] of
      (r0, s0) \<Rightarrow>
        (case stop (stub_engine None) None False s0 of
           (r1, s1) \<Rightarrow>
             (case run (stub_utils False []) (stub_engine None) None None False None False s1 of
                (r2, s2) \<Rightarrow>
                  r0 = Inr () \<and> r1 = Inl (LoadError ''/app/answers.conf.gen'') \<and> r2 = Inr () \<and>
                  answers_file (mgr s1) = Some ''/app/answers.conf.gen'' \<and>
                  trc s1 = [EvLoadAnswers ''/etc/answers.conf'', EvLoadAnswers ''/app/answers.conf.gen''] \<and>
                  filter is_load_answers (trc s2) = trc s1 \<and>
                  answers (mgr s2) = answers (mgr s0) \<and>
                  dump (wld s2) (answers (mgr s2)) =
                    [(''general'', FSect [(''provider'', SStr ''docker''), (''namespace'', SStr ''dev'')])])))"
  by code_simp

section \<open>Frames of the operations\<close>

lemma same_core_refl: "same_core m m" by (simp add: same_core_def)
lemma same_core_trans: "same_core a b \<Longrightarrow> same_core b c \<Longrightarrow> same_core a c"
  by (simp add: same_core_def)
lemma grows_refl: "grows P s s" by (simp add: grows_def)
lemma grows_trans: "grows P a b \<Longrightarrow> grows P b c \<Longrightarrow> grows P a c"
  by (auto simp: grows_def)

lemma quiet_ret: "quiet P (ret x)" by (simp add: quiet_def ret_def same_core_refl grows_refl)
lemma quiet_raise: "quiet P (raise e)" by (simp add: quiet_def raise_def same_core_refl grows_refl)
lemma quiet_emit: "P e \<Longrightarrow> quiet P (emit e)"
  by (auto simp: quiet_def emit_def same_core_def grows_def)
lemma quiet_call: "quiet P (call f)"
  by (auto simp: quiet_def call_def same_core_def grows_def split: prod.splits)
lemma quiet_call_fs: "quiet P (call_fs f)"
  by (auto simp: quiet_def call_fs_def same_core_def grows_def split: prod.splits)
lemma quiet_assign: "(\<And>m. same_core m (g m)) \<Longrightarrow> quiet P (assign g)"
  by (auto simp: quiet_def assign_def grows_def)

lemma quiet_andthen:
  assumes f: "quiet P f" and g: "\<And>x. quiet P (g x)"
  shows "quiet P (andthen f g)"
  unfolding quiet_def
proof (intro allI impI)
  fix s r s'' assume a: "andthen f g s = (r, s'')"
  show "same_core (mgr s) (mgr s'') \<and> grows P s s''"
  proof (cases "f s")
    case (Pair r1 s1)
    with f have 1: "same_core (mgr s) (mgr s1)" "grows P s s1" by (auto simp: quiet_def)
    show ?thesis
    proof (cases r1)
      case (Inl e)
      with a Pair have "s'' = s1" by (simp add: andthen_def)
      with 1 show ?thesis by simp
    next
      case (Inr x)
      with a Pair have "g x s1 = (r, s'')" by (simp add: andthen_def)
      with g[of x] have "same_core (mgr s1) (mgr s'')" "grows P s1 s''" by (auto simp: quiet_def)
      with 1 show ?thesis by (blast intro: same_core_trans grows_trans)
    qed
  qed
qed

lemma quiet_dep: "(\<And>s0. quiet P (F s0)) \<Longrightarrow> quiet P (\<lambda>s. F s s)"
  by (auto simp: quiet_def)

lemma quiet_settled: "quiet P f \<Longrightarrow> settled P f"
  by (simp add: quiet_def settled_def)

lemma settled_andthen:
  assumes f: "settled P f" and g: "\<And>x. settled P (g x)"
  shows "settled P (andthen f g)"
  unfolding settled_def
proof (intro allI impI)
  fix s r s'' assume t: "truthy_str (answers_file (mgr s))" and a: "andthen f g s = (r, s'')"
  show "same_core (mgr s) (mgr s'') \<and> grows P s s''"
  proof (cases "f s")
    case (Pair r1 s1)
    with f t have 1: "same_core (mgr s) (mgr s1)" "grows P s s1" by (auto simp: settled_def)
    then have t1: "truthy_str (answers_file (mgr s1))" using t by (simp add: same_core_def)
    show ?thesis
    proof (cases r1)
      case (Inl e)
      with a Pair have "s'' = s1" by (simp add: andthen_def)
      with 1 show ?thesis by simp
    next
      case (Inr x)
      with a Pair have "g x s1 = (r, s'')" by (simp add: andthen_def)
      with g[of x] t1 have "same_core (mgr s1) (mgr s'')" "grows P s1 s''" by (auto simp: settled_def)
      with 1 show ?thesis by (blast intro: same_core_trans grows_trans)
    qed
  qed
qed

lemma settled_guard:
  "settled P (\<lambda>s. if \<not> truthy_str (answers_file (mgr s)) then process_answers s else ret () s)"
  by (simp add: settled_def ret_def same_core_refl grows_refl)

lemma load_from_path_exact:
  "load_from_path E d c s = (r, s') \<Longrightarrow>
     mgr s' = mgr s \<and>
     trc s' = trc s @ [EvLoadFromPath (app_path (mgr s)) (map_option (dump (wld s)) c) d]"
  by (auto simp: load_from_path_def andthen_def emit_def call_def split: prod.splits)

lemma quiet_load_from_path:
  assumes "\<And>e. \<not> is_load_answers e \<Longrightarrow> \<not> is_unpack e \<Longrightarrow> P e"
  shows "quiet P (load_from_path E d c)"
  using assms
  by (auto simp: quiet_def same_core_def grows_def is_load_answers_def is_unpack_def
      dest!: load_from_path_exact)

lemma quiet_unpack:
  assumes "\<And>e. \<not> is_load_answers e \<Longrightarrow> P e"
  shows "quiet P (unpack E u d n c)"
  unfolding quiet_def
proof (intro allI impI)
  fix s r s' assume a: "unpack E u d n c s = (r, s')"
  have l: "quiet P (load_from_path E d c)"
    using assms by (intro quiet_load_from_path) auto
  have "\<And>img. P (EvUnpack img (app_path (mgr s)) (map_option (dump (wld s)) c) n d u)"
    using assms by (simp add: is_load_answers_def)
  then have "\<And>img. quiet P (andthen
                 (emit (EvUnpack img (app_path (mgr s)) (map_option (dump (wld s)) c) n d u))
                 (\<lambda>_. call (e_unpack E img (app_path (mgr s)) c n d u)))"
    by (intro quiet_andthen quiet_emit quiet_call)
  with a l show "same_core (mgr s) (mgr s') \<and> grows P s s'"
    by (auto simp: unpack_def quiet_def split: option.splits if_splits)
qed

lemma quiet_on_nulecule:
  assumes "\<And>n. quiet P (f n)"
  shows "quiet P (on_nulecule f)"
  unfolding quiet_def
proof (intro allI impI)
  fix s r s' assume a: "on_nulecule f s = (r, s')"
  have "\<And>n. quiet P (andthen (f n) (\<lambda>n'. assign (\<lambda>m. m\<lparr>nulecule := Some n'\<rparr>)))"
    using assms by (intro quiet_andthen quiet_assign) (auto simp: same_core_def)
  with a show "same_core (mgr s) (mgr s') \<and> grows P s s'"
    by (auto simp: on_nulecule_def quiet_def raise_def same_core_refl grows_refl split: option.splits)
qed

lemma quiet_load_config:
  assumes "\<And>e. \<not> is_load_answers e \<Longrightarrow> \<not> is_unpack e \<Longrightarrow> P e"
  shows "quiet P (load_config E c a k n)"
  using assms
  by (auto simp: quiet_def load_config_def andthen_def emit_def call_def same_core_def grows_def
        is_load_answers_def is_unpack_def split: prod.splits)

lemma quiet_render:
  assumes "\<And>e. \<not> is_load_answers e \<Longrightarrow> \<not> is_unpack e \<Longrightarrow> P e"
  shows "quiet P (render E p d n)"
  unfolding render_def using assms
  by (intro quiet_andthen quiet_emit quiet_call) (simp add: is_load_answers_def is_unpack_def)

lemma quiet_run_nulecule:
  assumes "\<And>e. \<not> is_load_answers e \<Longrightarrow> \<not> is_unpack e \<Longrightarrow> P e"
  shows "quiet P (run_nulecule E p d n)"
  unfolding run_nulecule_def using assms
  by (intro quiet_andthen quiet_emit quiet_call) (simp add: is_load_answers_def is_unpack_def)

lemma quiet_stop_nulecule:
  assumes "\<And>e. \<not> is_load_answers e \<Longrightarrow> \<not> is_unpack e \<Longrightarrow> P e"
  shows "quiet P (stop_nulecule E p d n)"
  unfolding stop_nulecule_def using assms
  by (intro quiet_andthen quiet_emit quiet_call) (simp add: is_load_answers_def is_unpack_def)

lemma quiet_write_answers:
  assumes "\<And>e. \<not> is_load_answers e \<Longrightarrow> \<not> is_unpack e \<Longrightarrow> P e"
  shows "quiet P (write_answers path a fmt)"
  using assms
  by (auto simp: quiet_def write_answers_def andthen_def emit_def call_def same_core_def grows_def
        is_load_answers_def is_unpack_def split: prod.splits)

lemma quiet_runtime_answers: "quiet P (runtime_answers_of_nulecule cp)"
  by (auto simp: quiet_def runtime_answers_of_nulecule_def raise_def call_def same_core_def grows_def
      split: option.splits prod.splits)

lemma quiet_set_answers_format: "quiet P (set_answers_format fmt)"
  unfolding set_answers_format_def by (intro quiet_assign) (simp add: same_core_def)

lemma quiet_set_answer: "quiet P (set_answer k v)"
  by (auto simp: quiet_def set_answer_def call_def same_core_def grows_def split: prod.splits)

lemma quiet_select_provider: "quiet P (select_provider U cp)"
  using quiet_set_answer[of P] 
  by (auto simp: quiet_def select_provider_def ret_def same_core_refl grows_refl
      split: list.splits if_splits)

lemma quiet_join_opt: "quiet P (join_opt p name)"
  by (auto simp: join_opt_def quiet_ret quiet_raise split: option.splits)


lemma quiet_unpack_self:
  "quiet (\<lambda>e. \<not> is_load_answers e) (\<lambda>s. unpack E u d n (Some (answers (mgr s))) s)"
  by (rule quiet_dep) (simp add: quiet_unpack)

lemma quiet_guard: "quiet P (\<lambda>s. if c s then raise e s else ret () s)"
  by (auto simp: quiet_def ret_def raise_def same_core_refl grows_refl)

lemma quiet_join_self: "quiet P (\<lambda>s. join_opt (app_path (mgr s)) name s)"
  by (rule quiet_dep) (rule quiet_join_opt)

lemma quiet_write_self:
  "quiet (\<lambda>e. \<not> is_load_answers e) (\<lambda>s. write_answers p a (answers_format (mgr s)) s)"
  by (rule quiet_dep) (simp add: quiet_write_answers)

lemma quiet_load_config_nulecule:
  "quiet (\<lambda>e. \<not> is_load_answers e) (on_nulecule (\<lambda>n. load_config E (b_config n) ask skip n))"
  by (intro quiet_on_nulecule quiet_load_config) simp

lemma quiet_nulecule_store: "quiet P (assign (\<lambda>m. m\<lparr>nulecule := Some n\<rparr>))"
  by (intro quiet_assign) (simp add: same_core_def)

lemma quiet_genanswers: "quiet (\<lambda>e. \<not> is_load_answers e) (genanswers U E dryrun fmt)"
  unfolding genanswers_def
  by (intro quiet_andthen quiet_set_answers_format quiet_guard quiet_unpack_self
      quiet_nulecule_store quiet_load_config_nulecule quiet_runtime_answers quiet_write_answers)
    simp

lemma quiet_install: "quiet (\<lambda>e. \<not> is_load_answers e) (install U E nodeps update dryrun fmt)"
  unfolding install_def
  by (intro quiet_andthen quiet_set_answers_format quiet_unpack_self quiet_join_self
      quiet_nulecule_store quiet_load_config_nulecule quiet_runtime_answers quiet_write_answers)
    simp

lemma quiet_runtime_write:
  "quiet (\<lambda>e. \<not> is_load_answers e)
     (\<lambda>s. andthen (join_opt (app_path (mgr s)) ANSWERS_RUNTIME_FILE)
            (\<lambda>p s'. write_answers p a (answers_format (mgr s')) s') s)"
  by (rule quiet_dep) (intro quiet_andthen quiet_join_opt quiet_write_self)

lemma quiet_export:
  "quiet (\<lambda>e. \<not> is_load_answers e)
     (\<lambda>s. case answers_output of
             None \<Rightarrow> ret () s
           | Some out \<Rightarrow> if out \<noteq> [] then write_answers out a (answers_format (mgr s)) s else ret () s)"
proof (cases answers_output)
  case None
  then show ?thesis using quiet_ret[of "\<lambda>e. \<not> is_load_answers e" "()"] by (simp add: quiet_def)
next
  case (Some out)
  then show ?thesis
    using quiet_ret[of "\<lambda>e. \<not> is_load_answers e" "()"] quiet_write_self[of out a]
    by (simp add: quiet_def)
qed

lemma quiet_render_nulecule:
  "quiet (\<lambda>e. \<not> is_load_answers e) (on_nulecule (render E p d))"
  by (intro quiet_on_nulecule quiet_render) simp

lemma quiet_run_on_nulecule:
  "quiet (\<lambda>e. \<not> is_load_answers e) (on_nulecule (run_nulecule E p d))"
  by (intro quiet_on_nulecule quiet_run_nulecule) simp

lemma settled_run:
  "settled (\<lambda>e. \<not> is_load_answers e) (run U E cli_provider answers_output ask fmt dryrun)"
  unfolding run_def
  by (intro settled_andthen settled_guard
        quiet_settled[OF quiet_set_answers_format] quiet_settled[OF quiet_unpack_self]
        quiet_settled[OF quiet_nulecule_store] quiet_settled[OF quiet_select_provider]
        quiet_settled[OF quiet_load_config_nulecule] quiet_settled[OF quiet_runtime_answers]
        quiet_settled[OF quiet_runtime_write] quiet_settled[OF quiet_export]
        quiet_settled[OF quiet_render_nulecule] quiet_settled[OF quiet_run_on_nulecule])

lemma quiet_load_config_answers:
  "quiet (\<lambda>e. \<not> is_unpack e \<and> \<not> is_load_answers e)
     (on_nulecule (\<lambda>n s. load_config E (answers (mgr s)) False False n s))"
proof (rule quiet_on_nulecule)
  fix n
  have "quiet (\<lambda>e. \<not> is_unpack e \<and> \<not> is_load_answers e) (load_config E c False False n)" for c
    by (rule quiet_load_config) simp
  then show "quiet (\<lambda>e. \<not> is_unpack e \<and> \<not> is_load_answers e)
          (\<lambda>s. load_config E (answers (mgr s)) False False n s)"
    by (auto simp: quiet_def)
qed

lemma stop_tail_quiet:
  "quiet (\<lambda>e. \<not> is_unpack e \<and> \<not> is_load_answers e)
     (andthen (assign (\<lambda>m. m\<lparr>nulecule := Some n\<rparr>))
        (\<lambda>_. andthen (on_nulecule (\<lambda>n s. load_config E (answers (mgr s)) False False n s))
           (\<lambda>_. andthen (on_nulecule (render E cli_provider dryrun))
              (\<lambda>_. on_nulecule (stop_nulecule E cli_provider dryrun)))))"
  by (intro quiet_andthen quiet_nulecule_store quiet_load_config_answers quiet_on_nulecule
      quiet_render quiet_stop_nulecule) simp_all

lemma process_answers_any:
  "process_answers s = (r, s') \<Longrightarrow>
     app_path (mgr s') = app_path (mgr s) \<and>
     (truthy_str (answers_file (mgr s)) \<longrightarrow> answers_file (mgr s') = answers_file (mgr s)) \<and>
     (trc s' = trc s \<or> (\<exists>f. trc s' = trc s @ [EvLoadAnswers f]))"
  by (auto simp: process_answers_def andthen_def join_opt_def ret_def raise_def assign_def
        load_answers_file_def emit_def call_def
      split: prod.splits sum.splits if_splits option.splits dest!: merge_cli_frame)

section \<open>Stop\<close>

lemma process_answers_loaded:
  assumes af: "answers_file (mgr s) = Some f" "f \<noteq> []"
      and fl: "fs (wld s) f = Some (File (Some content))"
      and g: "map_of content GLOBAL_CONF = Some (FSect g)"
  shows "\<exists>s'. process_answers s = (Inr (), s') \<and> trc s' = trc s @ [EvLoadAnswers f] \<and>
           app_path (mgr s') = app_path (mgr s) \<and> answers_file (mgr s') = Some f \<and>
           (\<forall>k. k \<notin> cli_keys (mgr s) \<longrightarrow>
                lookup2 (wld s') (answers (mgr s')) GLOBAL_CONF k = map_of g k) \<and>
           (cli_keys (mgr s) = {} \<longrightarrow> dump (wld s') (answers (mgr s')) = content)"
proof -
  from loadAnswers_ok[OF fl] g obtain a w' items b where
    l: "loadAnswers f (wld s) = (Inr a, w')" "dump w' a = content" "docs w' a = Some items"
       "map_of items GLOBAL_CONF = Some (VDict b)" "sects w' b = Some g"
    by blast
  let ?s2 = "s\<lparr>trc := trc s @ [EvLoadAnswers f], wld := w', mgr := (mgr s)\<lparr>answers := a\<rparr>\<rparr>"
  have step: "process_answers s =
      (case cli_answers (mgr s) of
         None \<Rightarrow> ret () ?s2
       | Some kvs \<Rightarrow> if kvs \<noteq> [] then merge_cli kvs ?s2 else ret () ?s2)"
    using af l(1)
    by (simp add: process_answers_def andthen_def truthy_str_def load_answers_file_def
        emit_def call_def assign_def ret_def)
  have look: "lookup2 (wld ?s2) (answers (mgr ?s2)) GLOBAL_CONF k = map_of g k" for k
    using l by (simp add: lookup2_def lookup_sect_def)
  show ?thesis
  proof (cases "\<exists>kvs. cli_answers (mgr s) = Some kvs \<and> kvs \<noteq> []")
    case False
    then have "process_answers s = (Inr (), ?s2)"
      using step by (auto simp: ret_def split: option.splits)
    with look l(2) af show ?thesis by simp
  next
    case True
    then obtain kvs where kvs: "cli_answers (mgr s) = Some kvs" "kvs \<noteq> []" by blast
    have "\<exists>s' sec'. merge_cli kvs ?s2 = (Inr (), s') \<and> mgr s' = mgr ?s2 \<and> trc s' = trc ?s2 \<and>
           docs (wld s') = docs (wld ?s2) \<and> fs (wld s') = fs (wld ?s2) \<and>
           sects (wld s') b = Some sec' \<and>
           (\<forall>k. k \<notin> fst ` set kvs \<longrightarrow> map_of sec' k = map_of g k) \<and>
           (\<forall>k. map_of g k \<noteq> None \<longrightarrow> map_of sec' k \<noteq> None)"
      using l by (intro merge_cli_ok) simp_all
    then obtain s' sec' where m: "merge_cli kvs ?s2 = (Inr (), s')" "mgr s' = mgr ?s2"
        "trc s' = trc ?s2" "docs (wld s') = docs (wld ?s2)" "sects (wld s') b = Some sec'"
        "\<forall>k. k \<notin> fst ` set kvs \<longrightarrow> map_of sec' k = map_of g k"
      by blast
    have "process_answers s = (Inr (), s')" using step kvs m(1) by simp
    moreover have "lookup2 (wld s') (answers (mgr s')) GLOBAL_CONF k = map_of g k"
      if "k \<notin> cli_keys (mgr s)" for k
      using that m l kvs by (simp add: lookup2_def lookup_sect_def cli_keys_def)
    moreover have "cli_keys (mgr s) \<noteq> {}" using kvs by (cases kvs) (auto simp: cli_keys_def)
    ultimately show ?thesis using m af by simp
  qed
qed

lemma stop_prefix:
  assumes ap: "app_path (mgr s) = Some p"
  shows "stop E cli_provider dryrun s =
     andthen process_answers
          (\<lambda>_. andthen (\<lambda>s. load_from_path E dryrun (Some (answers (mgr s))) s)
             (\<lambda>n. andthen (assign (\<lambda>m. m\<lparr>nulecule := Some n\<rparr>))
                (\<lambda>_. andthen (on_nulecule (\<lambda>n s. load_config E (answers (mgr s)) False False n s))
                   (\<lambda>_. andthen (on_nulecule (render E cli_provider dryrun))
                      (\<lambda>_. on_nulecule (stop_nulecule E cli_provider dryrun))))))
       (s\<lparr>mgr := (mgr s)\<lparr>answers_file := Some (path_join p ANSWERS_RUNTIME_FILE)\<rparr>\<rparr>)"
  using ap by (simp add: stop_def andthen_def join_opt_def ret_def assign_def)

lemma stop_engine_phase:
  assumes "andthen (\<lambda>s. load_from_path E dryrun (Some (answers (mgr s))) s)
             (\<lambda>n. andthen (assign (\<lambda>m. m\<lparr>nulecule := Some n\<rparr>))
                (\<lambda>_. andthen (on_nulecule (\<lambda>n s. load_config E (answers (mgr s)) False False n s))
                   (\<lambda>_. andthen (on_nulecule (render E cli_provider dryrun))
                      (\<lambda>_. on_nulecule (stop_nulecule E cli_provider dryrun))))) s = (r, s')"
  shows "same_core (mgr s) (mgr s') \<and>
         (\<exists>rest. trc s' = trc s @ EvLoadFromPath (app_path (mgr s)) (Some (dump (wld s) (answers (mgr s)))) dryrun # rest \<and>
                 list_all (\<lambda>e. \<not> is_unpack e \<and> \<not> is_load_answers e) rest)"
proof (cases "load_from_path E dryrun (Some (answers (mgr s))) s")
  case (Pair r1 s1)
  from load_from_path_exact[OF Pair]
  have 1: "mgr s1 = mgr s"
    "trc s1 = trc s @ [EvLoadFromPath (app_path (mgr s)) (Some (dump (wld s) (answers (mgr s)))) dryrun]"
    by simp_all
  show ?thesis
  proof (cases r1)
    case (Inl e)
    with assms Pair have "s' = s1" by (simp add: andthen_def)
    with 1 show ?thesis by (simp add: same_core_refl)
  next
    case (Inr n)
    with assms Pair have "andthen (assign (\<lambda>m. m\<lparr>nulecule := Some n\<rparr>))
                (\<lambda>_. andthen (on_nulecule (\<lambda>n s. load_config E (answers (mgr s)) False False n s))
                   (\<lambda>_. andthen (on_nulecule (render E cli_provider dryrun))
                      (\<lambda>_. on_nulecule (stop_nulecule E cli_provider dryrun)))) s1 = (r, s')"
      by (simp add: andthen_def)
    with stop_tail_quiet[of n E cli_provider dryrun]
    have "same_core (mgr s1) (mgr s')" "grows (\<lambda>e. \<not> is_unpack e \<and> \<not> is_load_answers e) s1 s'"
      by (auto simp: quiet_def)
    with 1 show ?thesis by (auto simp: grows_def)
  qed
qed


lemma path_join_nonempty: "b \<noteq> [] \<Longrightarrow> path_join a b \<noteq> []"
  by (simp add: path_join_def)

lemma process_answers_set:
  assumes "answers_file (mgr s) = Some f" "f \<noteq> []" "process_answers s = (r, s')"
  shows "trc s' = trc s @ [EvLoadAnswers f] \<and> app_path (mgr s') = app_path (mgr s) \<and>
         answers_file (mgr s') = Some f"
  using assms
  by (auto simp: process_answers_def andthen_def truthy_str_def ret_def assign_def
        load_answers_file_def emit_def call_def
      split: prod.splits sum.splits if_splits option.splits dest!: merge_cli_frame)

lemma stop_frame:
  assumes ap: "app_path (mgr s) = Some p" and st: "stop E cli_provider dryrun s = (r, s')"
  shows "answers_file (mgr s') = Some (path_join p ANSWERS_RUNTIME_FILE) \<and>
         app_path (mgr s') = Some p \<and>
         (\<exists>rest. trc s' = trc s @ EvLoadAnswers (path_join p ANSWERS_RUNTIME_FILE) # rest \<and>
                 list_all (\<lambda>e. \<not> is_unpack e \<and> \<not> is_load_answers e) rest) \<and>
         (\<forall>content g.
             fs (wld s) (path_join p ANSWERS_RUNTIME_FILE) = Some (File (Some content)) \<and>
             map_of content GLOBAL_CONF = Some (FSect g) \<longrightarrow>
             (\<exists>cfg rest. trc s' = trc s @ EvLoadAnswers (path_join p ANSWERS_RUNTIME_FILE)
                             # EvLoadFromPath (Some p) (Some cfg) dryrun # rest \<and>
                (\<forall>k. k \<notin> cli_keys (mgr s) \<longrightarrow> fdoc_lookup2 cfg GLOBAL_CONF k = map_of g k) \<and>
                (cli_keys (mgr s) = {} \<longrightarrow> cfg = content)))"
proof -
  let ?rf = "path_join p ANSWERS_RUNTIME_FILE"
  let ?sa = "s\<lparr>mgr := (mgr s)\<lparr>answers_file := Some ?rf\<rparr>\<rparr>"
  let ?tail = "\<lambda>_::unit. andthen (\<lambda>s. load_from_path E dryrun (Some (answers (mgr s))) s)
             (\<lambda>n. andthen (assign (\<lambda>m. m\<lparr>nulecule := Some n\<rparr>))
                (\<lambda>_. andthen (on_nulecule (\<lambda>n s. load_config E (answers (mgr s)) False False n s))
                   (\<lambda>_. andthen (on_nulecule (render E cli_provider dryrun))
                      (\<lambda>_. on_nulecule (stop_nulecule E cli_provider dryrun)))))"
  have rf: "?rf \<noteq> []" by (rule path_join_nonempty) (simp add: ANSWERS_RUNTIME_FILE_def)
  from stop_prefix[OF ap, of E cli_provider dryrun] st
  have run: "andthen process_answers ?tail ?sa = (r, s')" by simp
  obtain r1 s1 where pa: "process_answers ?sa = (r1, s1)" by (cases "process_answers ?sa")
  have af: "answers_file (mgr ?sa) = Some ?rf" by simp
  from process_answers_set[OF af rf pa] ap
  have 1: "trc s1 = trc s @ [EvLoadAnswers ?rf]" "app_path (mgr s1) = Some p"
    "answers_file (mgr s1) = Some ?rf" by simp_all
  have loaded: "r1 = Inr () \<and>
      (\<forall>k. k \<notin> cli_keys (mgr s) \<longrightarrow> lookup2 (wld s1) (answers (mgr s1)) GLOBAL_CONF k = map_of g k) \<and>
      (cli_keys (mgr s) = {} \<longrightarrow> dump (wld s1) (answers (mgr s1)) = content)"
    if "fs (wld s) ?rf = Some (File (Some content))" "map_of content GLOBAL_CONF = Some (FSect g)"
    for content g
  proof -
    have "fs (wld ?sa) ?rf = Some (File (Some content))" using that by simp
    from process_answers_loaded[OF af rf this that(2)] pa show ?thesis
      by (auto simp: cli_keys_def)
  qed
  show ?thesis
  proof (cases r1)
    case (Inl e)
    with run pa have "s' = s1" by (simp add: andthen_def)
    with 1 Inl loaded show ?thesis by auto
  next
    case (Inr u)
    with run pa have "?tail () s1 = (r, s')" by (simp add: andthen_def)
    from stop_engine_phase[OF this] obtain rest where
      2: "same_core (mgr s1) (mgr s')"
         "trc s' = trc s1 @ EvLoadFromPath (app_path (mgr s1)) (Some (dump (wld s1) (answers (mgr s1)))) dryrun # rest"
         "list_all (\<lambda>e. \<not> is_unpack e \<and> \<not> is_load_answers e) rest"
      by blast
    have a: "answers_file (mgr s') = Some ?rf \<and> app_path (mgr s') = Some p"
      using 1 2(1) by (simp add: same_core_def)
    have b: "trc s' = trc s @ EvLoadAnswers ?rf
               # EvLoadFromPath (Some p) (Some (dump (wld s1) (answers (mgr s1)))) dryrun # rest"
      using 1 2(2) by simp
    have c: "list_all (\<lambda>e. \<not> is_unpack e \<and> \<not> is_load_answers e)
               (EvLoadFromPath (Some p) (Some (dump (wld s1) (answers (mgr s1)))) dryrun # rest)"
      using 2(3) by (simp add: is_unpack_def is_load_answers_def)
    from a b c loaded show ?thesis
      by (auto simp: fdoc_lookup2_dump)
  qed
qed

lemma andthen_Inl_eq: "f s = (Inl e, s1) \<Longrightarrow> andthen f g s = (Inl e, s1)"
  by (simp add: andthen_def)

lemma andthen_Inr_eq: "f s = (Inr x, s1) \<Longrightarrow> andthen f g s = g x s1"
  by (simp add: andthen_def)

lemma andthen_assign: "andthen (assign f) g s = g () (s\<lparr>mgr := f (mgr s)\<rparr>)"
  by (simp add: andthen_def assign_def)

lemma load_from_path_value:
  "load_from_path E d c s =
     (case e_load_from_path E (app_path (mgr s)) d c (wld s) of
        (r, w') \<Rightarrow> (r, s\<lparr>trc := trc s @ [EvLoadFromPath (app_path (mgr s)) (map_option (dump (wld s)) c) d],
                        wld := w'\<rparr>))"
  by (simp add: load_from_path_def andthen_def emit_def call_def split: prod.splits)

lemma stop_steps:
  assumes ap: "app_path (mgr s) = Some p" and st: "stop E cli_provider dryrun s = (r, s')"
  shows "case process_answers (s\<lparr>mgr := (mgr s)\<lparr>answers_file := Some (path_join p ANSWERS_RUNTIME_FILE)\<rparr>\<rparr>) of
           (Inl e, s1) \<Rightarrow> r = Inl e \<and> s' = s1
         | (Inr u, s1) \<Rightarrow>
             (case e_load_from_path E (Some p) dryrun (Some (answers (mgr s1))) (wld s1) of
                (Inl e, w1) \<Rightarrow>
                  r = Inl e \<and>
                  s' = s1\<lparr>trc := trc s1 @ [EvLoadFromPath (Some p) (Some (dump (wld s1) (answers (mgr s1)))) dryrun],
                          wld := w1\<rparr>
              | (Inr n, w1) \<Rightarrow>
                  (r, s') =
                    andthen (on_nulecule (\<lambda>n s. load_config E (answers (mgr s)) False False n s))
                      (\<lambda>_. andthen (on_nulecule (render E cli_provider dryrun))
                         (\<lambda>_. on_nulecule (stop_nulecule E cli_provider dryrun)))
                      (s1\<lparr>trc := trc s1 @ [EvLoadFromPath (Some p) (Some (dump (wld s1) (answers (mgr s1)))) dryrun],
                          wld := w1, mgr := (mgr s1)\<lparr>nulecule := Some n\<rparr>\<rparr>))"
proof -
  let ?sa = "s\<lparr>mgr := (mgr s)\<lparr>answers_file := Some (path_join p ANSWERS_RUNTIME_FILE)\<rparr>\<rparr>"
  let ?rest = "andthen (on_nulecule (\<lambda>n s. load_config E (answers (mgr s)) False False n s))
                      (\<lambda>_. andthen (on_nulecule (render E cli_provider dryrun))
                         (\<lambda>_. on_nulecule (stop_nulecule E cli_provider dryrun)))"
  let ?k = "\<lambda>n. andthen (assign (\<lambda>m. m\<lparr>nulecule := Some n\<rparr>)) (\<lambda>_. ?rest)"
  let ?tail = "\<lambda>_::unit. andthen (\<lambda>s. load_from_path E dryrun (Some (answers (mgr s))) s) ?k"
  from stop_prefix[OF ap, of E cli_provider dryrun] st
  have run: "andthen process_answers ?tail ?sa = (r, s')" by simp
  obtain r1 s1 where pa: "process_answers ?sa = (r1, s1)" by (cases "process_answers ?sa")
  from process_answers_any[OF pa] ap have ap1: "app_path (mgr s1) = Some p" by simp
  show ?thesis
  proof (cases r1)
    case (Inl e)
    with pa have pa': "process_answers ?sa = (Inl e, s1)" by simp
    from run andthen_Inl_eq[where f = process_answers and s = ?sa and g = ?tail, OF pa'] have "r = Inl e" "s' = s1" by simp_all
    with pa' show ?thesis by simp
  next
    case (Inr u)
    with pa have pa': "process_answers ?sa = (Inr u, s1)" by simp
    from run andthen_Inr_eq[where f = process_answers and s = ?sa and g = ?tail, OF pa'] have t: "?tail () s1 = (r, s')" by simp
    obtain rn w1 where ev: "e_load_from_path E (Some p) dryrun (Some (answers (mgr s1))) (wld s1) = (rn, w1)"
      by (cases "e_load_from_path E (Some p) dryrun (Some (answers (mgr s1))) (wld s1)")
    let ?s2 = "s1\<lparr>trc := trc s1 @ [EvLoadFromPath (Some p) (Some (dump (wld s1) (answers (mgr s1)))) dryrun],
                  wld := w1\<rparr>"
    show ?thesis
    proof (cases rn)
      case il: (Inl e)
      with ev have ev': "e_load_from_path E (Some p) dryrun (Some (answers (mgr s1))) (wld s1) = (Inl e, w1)"
        by simp
      have lf: "load_from_path E dryrun (Some (answers (mgr s1))) s1 = (Inl e, ?s2)"
        using ev' ap1 by (simp add: load_from_path_value)
      from t andthen_Inl_eq[where f = "\<lambda>s. load_from_path E dryrun (Some (answers (mgr s))) s"
          and s = s1 and g = ?k, OF lf] have "r = Inl e" "s' = ?s2" by simp_all
      with pa' ev' show ?thesis by simp
    next
      case ir: (Inr n)
      with ev have ev': "e_load_from_path E (Some p) dryrun (Some (answers (mgr s1))) (wld s1) = (Inr n, w1)"
        by simp
      have lf: "load_from_path E dryrun (Some (answers (mgr s1))) s1 = (Inr n, ?s2)"
        using ev' ap1 by (simp add: load_from_path_value)
      from t andthen_Inr_eq[where f = "\<lambda>s. load_from_path E dryrun (Some (answers (mgr s))) s"
          and s = s1 and g = ?k, OF lf]
      have "(r, s') = andthen (assign (\<lambda>m. m\<lparr>nulecule := Some n\<rparr>)) (\<lambda>_. ?rest) ?s2"
        by simp
      then have "(r, s') = ?rest (?s2\<lparr>mgr := (mgr ?s2)\<lparr>nulecule := Some n\<rparr>\<rparr>)"
        by (simp only: andthen_assign)
      then have "(r, s') = ?rest (s1\<lparr>trc := trc s1 @ [EvLoadFromPath (Some p) (Some (dump (wld s1) (answers (mgr s1)))) dryrun],
                          wld := w1, mgr := (mgr s1)\<lparr>nulecule := Some n\<rparr>\<rparr>)"
        by simp
      with pa' ev' show ?thesis by simp
    qed
  qed
qed

text \<open>
  Claim C7: for every \<open>stop\<close> of a controller with an app path, whatever the answers
  file path was before: afterwards it is the runtime answers file name joined to the app
  path; the first call is the load of that file; no call unpacks an image. When the file
  is there and has a global section, the load succeeds and the next call loads the
  bundle from the app path, handing over the loaded document: every key of its global
  section that the command line did not give has the file's value (the provider and the
  namespace that \<open>run\<close> wrote among them), and with no command line answers the
  document is the file's content. The bundle is what the engine's load from the app path
  returns: when the answers are resolved, \<open>stop\<close> goes on from the world and the handle
  which that call gives for the app path, the dry run flag and the resolved answers,
  and when the call raises \<open>stop\<close> ends with its exception in the world it left.
\<close>

theorem stop_reloads_runtime_answers:
  assumes ap: "app_path (mgr s) = Some p"
  shows "case stop E cli_provider dryrun s of
           (r, s') \<Rightarrow>
             answers_file (mgr s') = Some (path_join p ANSWERS_RUNTIME_FILE) \<and>
             (\<exists>rest. trc s' = trc s @ EvLoadAnswers (path_join p ANSWERS_RUNTIME_FILE) # rest \<and>
                     (\<forall>e \<in> set rest. \<not> is_unpack e)) \<and>
             (\<forall>content g.
                 fs (wld s) (path_join p ANSWERS_RUNTIME_FILE) = Some (File (Some content)) \<and>
                 map_of content GLOBAL_CONF = Some (FSect g) \<longrightarrow>
                 (\<exists>cfg rest. trc s' = trc s @ EvLoadAnswers (path_join p ANSWERS_RUNTIME_FILE)
                                 # EvLoadFromPath (Some p) (Some cfg) dryrun # rest \<and>
                    (\<forall>k. k \<notin> cli_keys (mgr s) \<longrightarrow> fdoc_lookup2 cfg GLOBAL_CONF k = map_of g k) \<and>
                    (cli_keys (mgr s) = {} \<longrightarrow> cfg = content))) \<and>
             (case process_answers
                     (s\<lparr>mgr := (mgr s)\<lparr>answers_file := Some (path_join p ANSWERS_RUNTIME_FILE)\<rparr>\<rparr>) of
                (Inl e, s1) \<Rightarrow> r = Inl e \<and> s' = s1
              | (Inr u, s1) \<Rightarrow>
                  (case e_load_from_path E (Some p) dryrun (Some (answers (mgr s1))) (wld s1) of
                     (Inl e, w1) \<Rightarrow>
                       r = Inl e \<and>
                       s' = s1\<lparr>trc := trc s1 @ [EvLoadFromPath (Some p) (Some (dump (wld s1) (answers (mgr s1)))) dryrun],
                               wld := w1\<rparr>
                   | (Inr n, w1) \<Rightarrow>
                       (r, s') =
                         andthen (on_nulecule (\<lambda>n s. load_config E (answers (mgr s)) False False n s))
                           (\<lambda>_. andthen (on_nulecule (render E cli_provider dryrun))
                              (\<lambda>_. on_nulecule (stop_nulecule E cli_provider dryrun)))
                           (s1\<lparr>trc := trc s1 @ [EvLoadFromPath (Some p) (Some (dump (wld s1) (answers (mgr s1)))) dryrun],
                               wld := w1, mgr := (mgr s1)\<lparr>nulecule := Some n\<rparr>\<rparr>)))"
proof (cases "stop E cli_provider dryrun s")
  case (Pair r s')
  have old: "answers_file (mgr s') = Some (path_join p ANSWERS_RUNTIME_FILE) \<and>
             (\<exists>rest. trc s' = trc s @ EvLoadAnswers (path_join p ANSWERS_RUNTIME_FILE) # rest \<and>
                     (\<forall>e \<in> set rest. \<not> is_unpack e)) \<and>
             (\<forall>content g.
                 fs (wld s) (path_join p ANSWERS_RUNTIME_FILE) = Some (File (Some content)) \<and>
                 map_of content GLOBAL_CONF = Some (FSect g) \<longrightarrow>
                 (\<exists>cfg rest. trc s' = trc s @ EvLoadAnswers (path_join p ANSWERS_RUNTIME_FILE)
                                 # EvLoadFromPath (Some p) (Some cfg) dryrun # rest \<and>
                    (\<forall>k. k \<notin> cli_keys (mgr s) \<longrightarrow> fdoc_lookup2 cfg GLOBAL_CONF k = map_of g k) \<and>
                    (cli_keys (mgr s) = {} \<longrightarrow> cfg = content)))"
    using stop_frame[OF ap Pair] by (simp add: list_all_iff) blast
  have steps: "(case process_answers
                     (s\<lparr>mgr := (mgr s)\<lparr>answers_file := Some (path_join p ANSWERS_RUNTIME_FILE)\<rparr>\<rparr>) of
                (Inl e, s1) \<Rightarrow> r = Inl e \<and> s' = s1
              | (Inr u, s1) \<Rightarrow>
                  (case e_load_from_path E (Some p) dryrun (Some (answers (mgr s1))) (wld s1) of
                     (Inl e, w1) \<Rightarrow>
                       r = Inl e \<and>
                       s' = s1\<lparr>trc := trc s1 @ [EvLoadFromPath (Some p) (Some (dump (wld s1) (answers (mgr s1)))) dryrun],
                               wld := w1\<rparr>
                   | (Inr n, w1) \<Rightarrow>
                       (r, s') =
                         andthen (on_nulecule (\<lambda>n s. load_config E (answers (mgr s)) False False n s))
                           (\<lambda>_. andthen (on_nulecule (render E cli_provider dryrun))
                              (\<lambda>_. on_nulecule (stop_nulecule E cli_provider dryrun)))
                           (s1\<lparr>trc := trc s1 @ [EvLoadFromPath (Some p) (Some (dump (wld s1) (answers (mgr s1)))) dryrun],
                               wld := w1, mgr := (mgr s1)\<lparr>nulecule := Some n\<rparr>\<rparr>)))"
    by (rule stop_steps[OF ap Pair])
  from conjI[OF old[THEN conjunct1]
        conjI[OF old[THEN conjunct2, THEN conjunct1] conjI[OF old[THEN conjunct2, THEN conjunct2] steps]]]
  show ?thesis unfolding Pair prod.case .
qed

theorem stop_reloads_runtime_answers_witness:
  "app_path (mgr ran_state) = Some ''/app'' \<and>
   (case stop (stub_engine None) None False ran_state of
      (r, s') \<Rightarrow>
        answers_file (mgr s') = Some ''/app/answers.conf.gen'' \<and>
        (\<exists>cfg rest. trc s' = trc ran_state @ EvLoadAnswers ''/app/answers.conf.gen''
                        # EvLoadFromPath (Some ''/app'') (Some cfg) False # rest \<and>
           fdoc_lookup2 cfg GLOBAL_CONF PROVIDER_KEY = Some (SStr ''docker'') \<and>
           fdoc_lookup2 cfg GLOBAL_CONF NAMESPACE_KEY = Some (SStr ''default''))) \<and>
   fst (stop (stub_engine None) None False ran_state) = Inr () \<and>
   map_option b_basepath (nulecule (mgr (snd (stop (stub_engine None) None False ran_state))))
     = Some (Some ''/app'')"
proof -
  let ?c = "[(''general'', FSect [(''namespace'', SStr ''default''), (''provider'', SStr ''docker'')])]"
  let ?g = "[(''namespace'', SStr ''default''), (''provider'', SStr ''docker'')]"
  have ap: "app_path (mgr ran_state) = Some ''/app''"
    and fc: "fs (wld ran_state) ''/app/answers.conf.gen'' = Some (File (Some ?c))"
    and cli: "cli_answers (mgr ran_state) = None"
    unfolding ran_state_def plain_input_def by code_simp+
  have pj: "path_join ''/app'' ANSWERS_RUNTIME_FILE = ''/app/answers.conf.gen''"
    and g: "map_of ?c GLOBAL_CONF = Some (FSect ?g)"
    and pv: "map_of ?g PROVIDER_KEY = Some (SStr ''docker'')"
    and ns: "map_of ?g NAMESPACE_KEY = Some (SStr ''default'')"
    by code_simp+
  have ck: "PROVIDER_KEY \<notin> cli_keys (mgr ran_state)" "NAMESPACE_KEY \<notin> cli_keys (mgr ran_state)"
    using cli by (simp_all add: cli_keys_def)
  have fin: "fst (stop (stub_engine None) None False ran_state) = Inr ()"
    and handle: "map_option b_basepath
                   (nulecule (mgr (snd (stop (stub_engine None) None False ran_state))))
                   = Some (Some ''/app'')"
    unfolding ran_state_def plain_input_def by code_simp+
  obtain r s' where st: "stop (stub_engine None) None False ran_state = (r, s')"
    by (cases "stop (stub_engine None) None False ran_state")
  from stop_reloads_runtime_answers[OF ap, where E = "stub_engine None" and cli_provider = None
      and dryrun = False]
  have a: "answers_file (mgr s') = Some ''/app/answers.conf.gen''"
    and b: "\<forall>content g.
                 fs (wld ran_state) ''/app/answers.conf.gen'' = Some (File (Some content)) \<and>
                 map_of content GLOBAL_CONF = Some (FSect g) \<longrightarrow>
                 (\<exists>cfg rest. trc s' = trc ran_state @ EvLoadAnswers ''/app/answers.conf.gen''
                                 # EvLoadFromPath (Some ''/app'') (Some cfg) False # rest \<and>
                    (\<forall>k. k \<notin> cli_keys (mgr ran_state) \<longrightarrow> fdoc_lookup2 cfg GLOBAL_CONF k = map_of g k) \<and>
                    (cli_keys (mgr ran_state) = {} \<longrightarrow> cfg = content))"
    unfolding st pj by simp_all
  from b fc g obtain cfg rest where
    c: "trc s' = trc ran_state @ EvLoadAnswers ''/app/answers.conf.gen''
                                 # EvLoadFromPath (Some ''/app'') (Some cfg) False # rest"
       "\<forall>k. k \<notin> cli_keys (mgr ran_state) \<longrightarrow> fdoc_lookup2 cfg GLOBAL_CONF k = map_of ?g k"
    by blast
  from c(2) ck pv ns have "fdoc_lookup2 cfg GLOBAL_CONF PROVIDER_KEY = Some (SStr ''docker'')"
    "fdoc_lookup2 cfg GLOBAL_CONF NAMESPACE_KEY = Some (SStr ''default'')"
    by simp_all
  with a c(1) ap fin[unfolded st] handle[unfolded st] show ?thesis unfolding st by auto
qed

text \<open>
  Claim C10, as the code has it: \<open>stop\<close> sets the answers file path to the runtime
  answers file in the app path before anything can fail, and the path is then set (not
  empty). While the path is set, \<open>run\<close> keeps the path, the app path and the answers
  document it had and loads no answers file: it skips answer resolution. \<open>install\<close> and
  \<open>genanswers\<close> never resolve answers and keep them too.
\<close>

theorem answers_file_after_stop:
  "(app_path (mgr s) = Some p \<longrightarrow>
      (case stop E cli_provider dryrun s of
         (r, s') \<Rightarrow>
           answers_file (mgr s') = Some (path_join p ANSWERS_RUNTIME_FILE) \<and>
           app_path (mgr s') = Some p \<and> truthy_str (answers_file (mgr s')))) \<and>
   (truthy_str (answers_file (mgr s)) \<longrightarrow>
      (case run U E cli_provider answers_output ask fmt dryrun s of
         (r, s') \<Rightarrow>
           answers_file (mgr s') = answers_file (mgr s) \<and> app_path (mgr s') = app_path (mgr s) \<and>
           answers (mgr s') = answers (mgr s) \<and>
           (\<exists>new. trc s' = trc s @ new \<and> (\<forall>e \<in> set new. \<not> is_load_answers e)))) \<and>
   (case install U E nodeps update dryrun fmt s of
      (r, s') \<Rightarrow>
        answers_file (mgr s') = answers_file (mgr s) \<and> app_path (mgr s') = app_path (mgr s) \<and>
        answers (mgr s') = answers (mgr s) \<and>
        (\<exists>new. trc s' = trc s @ new \<and> (\<forall>e \<in> set new. \<not> is_load_answers e))) \<and>
   (case genanswers U E dryrun fmt s of
      (r, s') \<Rightarrow>
        answers_file (mgr s') = answers_file (mgr s) \<and> app_path (mgr s') = app_path (mgr s) \<and>
        answers (mgr s') = answers (mgr s) \<and>
        (\<exists>new. trc s' = trc s @ new \<and> (\<forall>e \<in> set new. \<not> is_load_answers e)))"
proof (intro conjI impI)
  assume ap: "app_path (mgr s) = Some p"
  obtain r s' where st: "stop E cli_provider dryrun s = (r, s')"
    by (cases "stop E cli_provider dryrun s")
  have "path_join p ANSWERS_RUNTIME_FILE \<noteq> []"
    by (rule path_join_nonempty) (simp add: ANSWERS_RUNTIME_FILE_def)
  with stop_frame[OF ap st] show "case stop E cli_provider dryrun s of
         (r, s') \<Rightarrow>
           answers_file (mgr s') = Some (path_join p ANSWERS_RUNTIME_FILE) \<and>
           app_path (mgr s') = Some p \<and> truthy_str (answers_file (mgr s'))"
    unfolding st by (simp add: truthy_str_def)
next
  assume t: "truthy_str (answers_file (mgr s))"
  obtain r s' where st: "run U E cli_provider answers_output ask fmt dryrun s = (r, s')"
    by (cases "run U E cli_provider answers_output ask fmt dryrun s")
  from settled_run[of U E cli_provider answers_output ask fmt dryrun] t st
  have "same_core (mgr s) (mgr s')" "grows (\<lambda>e. \<not> is_load_answers e) s s'"
    by (auto simp: settled_def)
  then show "case run U E cli_provider answers_output ask fmt dryrun s of
         (r, s') \<Rightarrow>
           answers_file (mgr s') = answers_file (mgr s) \<and> app_path (mgr s') = app_path (mgr s) \<and>
           answers (mgr s') = answers (mgr s) \<and>
           (\<exists>new. trc s' = trc s @ new \<and> (\<forall>e \<in> set new. \<not> is_load_answers e))"
    unfolding st by (auto simp: same_core_def grows_def list_all_iff)
next
  obtain r s' where st: "install U E nodeps update dryrun fmt s = (r, s')"
    by (cases "install U E nodeps update dryrun fmt s")
  from quiet_install[of U E nodeps update dryrun fmt] st
  have "same_core (mgr s) (mgr s')" "grows (\<lambda>e. \<not> is_load_answers e) s s'"
    by (auto simp: quiet_def)
  then show "case install U E nodeps update dryrun fmt s of
      (r, s') \<Rightarrow>
        answers_file (mgr s') = answers_file (mgr s) \<and> app_path (mgr s') = app_path (mgr s) \<and>
        answers (mgr s') = answers (mgr s) \<and>
        (\<exists>new. trc s' = trc s @ new \<and> (\<forall>e \<in> set new. \<not> is_load_answers e))"
    unfolding st by (auto simp: same_core_def grows_def list_all_iff)
next
  obtain r s' where st: "genanswers U E dryrun fmt s = (r, s')"
    by (cases "genanswers U E dryrun fmt s")
  from quiet_genanswers[of U E dryrun fmt] st
  have "same_core (mgr s) (mgr s')" "grows (\<lambda>e. \<not> is_load_answers e) s s'"
    by (auto simp: quiet_def)
  then show "case genanswers U E dryrun fmt s of
      (r, s') \<Rightarrow>
        answers_file (mgr s') = answers_file (mgr s) \<and> app_path (mgr s') = app_path (mgr s) \<and>
        answers (mgr s') = answers (mgr s) \<and>
        (\<exists>new. trc s' = trc s @ new \<and> (\<forall>e \<in> set new. \<not> is_load_answers e))"
    unfolding st by (auto simp: same_core_def grows_def list_all_iff)
qed

theorem answers_file_after_stop_witness:
  "app_path (mgr (snd plain_input)) = Some ''/app'' \<and>
   answers_file (mgr stopped_state) = Some ''/app/answers.conf.gen'' \<and>
   truthy_str (answers_file (mgr stopped_state)) \<and>
   (case run (stub_utils False []) (stub_engine None) None None False None False stopped_state of
      (r, s') \<Rightarrow>
        answers_file (mgr s') = Some ''/app/answers.conf.gen'' \<and>
        answers (mgr s') = answers (mgr stopped_state) \<and>
        (\<exists>new. trc s' = trc stopped_state @ new \<and> list_all (\<lambda>e. \<not> is_load_answers e) new))"
proof -
  have ap: "app_path (mgr (snd plain_input)) = Some ''/app''"
    unfolding plain_input_def by code_simp
  have pj: "path_join ''/app'' ANSWERS_RUNTIME_FILE = ''/app/answers.conf.gen''"
    by code_simp
  note th1 = answers_file_after_stop[of "snd plain_input" "''/app''" "stub_engine None" None False
      "stub_utils False []" None False None False False]
  from th1[THEN conjunct1, rule_format, OF ap] have "case stop (stub_engine None) None False (snd plain_input) of
         (r, s') \<Rightarrow>
           answers_file (mgr s') = Some (path_join ''/app'' ANSWERS_RUNTIME_FILE) \<and>
           app_path (mgr s') = Some ''/app'' \<and> truthy_str (answers_file (mgr s'))"
    .
  then have st: "answers_file (mgr stopped_state) = Some ''/app/answers.conf.gen''"
    "truthy_str (answers_file (mgr stopped_state))"
    unfolding stopped_state_def pj by (simp_all add: case_prod_beta truthy_str_def)
  note th2 = answers_file_after_stop[of stopped_state "''/app''" "stub_engine None" None False
      "stub_utils False []" None False None False False]
  from th2[THEN conjunct2, THEN conjunct1, rule_format, OF st(2)] have "case run (stub_utils False []) (stub_engine None) None None False None False stopped_state of
         (r, s') \<Rightarrow>
           answers_file (mgr s') = answers_file (mgr stopped_state) \<and>
           app_path (mgr s') = app_path (mgr stopped_state) \<and>
           answers (mgr s') = answers (mgr stopped_state) \<and>
           (\<exists>new. trc s' = trc stopped_state @ new \<and> (\<forall>e \<in> set new. \<not> is_load_answers e))"
    .
  with ap st show ?thesis by (auto simp: case_prod_beta list_all_iff)
qed

section \<open>Where the application lives\<close>









end
